theory Spec2Isabelle
  imports Main
begin

section \<open>Python strings as lists of code points\<close>

text \<open>
  A Python \<open>str\<close> is a sequence of Unicode code points, and the title-block labels of
  \<open>ai_extractor.py\<close> are Japanese words, so a string is modelled as a list of code
  points (natural numbers); \<open>len\<close> is \<open>length\<close>. The Japanese literals of the source
  are given by their code points, with a romanised reading in the comment.
\<close>

type_synonym ustr = "nat list"

text \<open>
  \<open>str.isspace\<close> for one character; the same set is what \<open>\s\<close> matches in a \<open>re\<close>
  pattern over \<open>str\<close>, and what \<open>str.strip()\<close> removes.
\<close>

definition isspace :: "nat \<Rightarrow> bool" where
  "isspace c \<longleftrightarrow>
     (9 \<le> c \<and> c \<le> 13) \<or> (28 \<le> c \<and> c \<le> 32) \<or> c = 133 \<or> c = 160 \<or> c = 5760 \<or>
     (8192 \<le> c \<and> c \<le> 8202) \<or> c = 8232 \<or> c = 8233 \<or> c = 8239 \<or> c = 8287 \<or> c = 12288"

text \<open>
  \<open>\d\<close> in a \<open>re\<close> pattern over \<open>str\<close> matches every Unicode decimal digit (category
  Nd), not only \<open>0\<close>..\<open>9\<close>. The table is the one of Unicode 14 (CPython 3.11): each
  entry of \<open>nd_zero\<close> is the digit zero of a run of ten digits, and the mathematical
  digits U+1D7CE..U+1D7FF are five such runs in a row.
\<close>

definition nd_zero :: "nat list" where
  "nd_zero = [48, 1632, 1776, 1984, 2406, 2534, 2662, 2790, 2918, 3046, 3174, 3302, 3430,
     3558, 3664, 3792, 3872, 4160, 4240, 6112, 6160, 6470, 6608, 6784, 6800, 6992, 7088,
     7232, 7248, 42528, 43216, 43264, 43472, 43504, 43600, 44016, 65296, 66720, 68912,
     69734, 69872, 69942, 70096, 70384, 70736, 70864, 71248, 71360, 71472, 71904, 72016,
     72784, 73040, 73120, 92768, 92864, 93008, 123200, 123632, 125264, 130032]"

definition isdigit :: "nat \<Rightarrow> bool" where
  "isdigit c \<longleftrightarrow>
     (48 \<le> c \<and> c \<le> 57) \<or> list_ex (\<lambda>z. z \<le> c \<and> c \<le> z + 9) nd_zero \<or>
     (120782 \<le> c \<and> c \<le> 120831)"

text \<open>\<open>s.strip()\<close>, \<open>s.lstrip(chars)\<close>.\<close>

definition strip :: "ustr \<Rightarrow> ustr" where
  "strip s = rev (dropWhile isspace (rev (dropWhile isspace s)))"

definition lstrip_chars :: "ustr \<Rightarrow> ustr \<Rightarrow> ustr" where
  "lstrip_chars chars s = dropWhile (\<lambda>c. c \<in> set chars) s"

text \<open>
  \<open>s.splitlines()\<close>: a line ends at LF, VT, FF, CR, FS, GS, RS, NEL, LS or PS, the
  pair CR LF counts once, the breaks are dropped, and a text that ends in a break has
  no empty last line.
\<close>

definition islinebreak :: "nat \<Rightarrow> bool" where
  "islinebreak c \<longleftrightarrow> (10 \<le> c \<and> c \<le> 13) \<or> (28 \<le> c \<and> c \<le> 30) \<or> c = 133 \<or> c = 8232 \<or> c = 8233"

fun splitlines_from :: "ustr \<Rightarrow> ustr \<Rightarrow> ustr list" where
  "splitlines_from cur [] = (if cur = [] then [] else [cur])"
| "splitlines_from cur [c] = (if islinebreak c then [cur] else [cur @ [c] ])"
| "splitlines_from cur (c # d # ds) =
     (if c = 13 \<and> d = 10 then cur # splitlines_from [] ds
      else if islinebreak c then cur # splitlines_from [] (d # ds)
      else splitlines_from (cur @ [c]) (d # ds))"

definition splitlines :: "ustr \<Rightarrow> ustr list" where
  "splitlines s = splitlines_from [] s"

text \<open>\<open>sep in s\<close> and \<open>s.split(sep)[0]\<close> for a non-empty separator.\<close>

definition startswith :: "ustr \<Rightarrow> ustr \<Rightarrow> bool" where
  "startswith s p \<longleftrightarrow> take (length p) s = p"

fun contains :: "ustr \<Rightarrow> ustr \<Rightarrow> bool" where
  "contains sep [] = (sep = [])"
| "contains sep (c # cs) = (startswith (c # cs) sep \<or> contains sep cs)"

fun split_head :: "ustr \<Rightarrow> ustr \<Rightarrow> ustr" where
  "split_head sep [] = []"
| "split_head sep (c # cs) = (if startswith (c # cs) sep then [] else c # split_head sep cs)"

section \<open>The regular expressions of the rule engine\<close>

text \<open>
  \<open>_DRAWING_NO_PATTERN = re.compile(r"\d{4}-\d{4}")\<close>. \<open>drawing_no_match s\<close> is
  \<open>_DRAWING_NO_PATTERN.match(s)\<close> (a match at the start of \<open>s\<close>; whatever follows the
  nine characters is ignored), \<open>drawing_no_search s\<close> is the \<open>group(0)\<close> of
  \<open>_DRAWING_NO_PATTERN.search(s)\<close>, the leftmost match.
\<close>

definition drawing_no_match :: "ustr \<Rightarrow> bool" where
  "drawing_no_match s \<longleftrightarrow>
     9 \<le> length s \<and> list_all isdigit (take 4 s) \<and> s ! 4 = 45 \<and> list_all isdigit (take 4 (drop 5 s))"

fun drawing_no_search :: "ustr \<Rightarrow> ustr option" where
  "drawing_no_search [] = None"
| "drawing_no_search (c # cs) =
     (if drawing_no_match (c # cs) then Some (take 9 (c # cs)) else drawing_no_search cs)"

text \<open>
  The pattern as the specification words it for a value: the value is four digits, a
  hyphen and four digits, and nothing more.
\<close>

definition is_drawing_no :: "ustr \<Rightarrow> bool" where
  "is_drawing_no s \<longleftrightarrow> length s = 9 \<and> drawing_no_match s"

text \<open>
  \<open>_PAGE_SEP_PATTERN = re.compile(r"^\[<page>\s*\d+\]$")\<close> with \<open>.match\<close>: the literal
  \<open>[\<close> followed by the word \<open><page>\<close> (U+30DA U+30FC U+30B8, "peeji"), any whitespace, one or more digits,
  \<open>]\<close>, and then the end of the string or the line feed that ends it.
\<close>

definition page_word :: ustr where
  "page_word = [91, 12506, 12540, 12472]"

definition page_sep_match :: "ustr \<Rightarrow> bool" where
  "page_sep_match s \<longleftrightarrow>
     startswith s page_word \<and>
     (let r = dropWhile isspace (drop (length page_word) s)
      in takeWhile isdigit r \<noteq> [] \<and> dropWhile isdigit r \<in> {[93], [93, 10]})"

text \<open>
  \<open>re.search(r"\d{4}-\d{2}-\d{2}", value)\<close> and \<open>re.search(r"\d{4}/\d{2}/\d{2}", value)\<close>:
  the date patterns with separator \<open>sep\<close> (45 is the hyphen, 47 the slash).
\<close>

definition date_match :: "nat \<Rightarrow> ustr \<Rightarrow> bool" where
  "date_match sep s \<longleftrightarrow>
     10 \<le> length s \<and> list_all isdigit (take 4 s) \<and> s ! 4 = sep \<and>
     list_all isdigit (take 2 (drop 5 s)) \<and> s ! 7 = sep \<and> list_all isdigit (take 2 (drop 8 s))"

fun date_search :: "nat \<Rightarrow> ustr \<Rightarrow> bool" where
  "date_search sep [] = False"
| "date_search sep (c # cs) = (date_match sep (c # cs) \<or> date_search sep cs)"

section \<open>Exceptions\<close>

text \<open>
  An exception is a value: its class and its message (\<open>str(e)\<close>). \<open>Service\<close> stands
  for whatever an external collaborator raises (database, blob store, OCR, generative
  model, vector index).
\<close>

datatype exc_class = IndexError | AttributeError | TypeError | ValueError | Service

datatype error = Exc exc_class ustr

fun message :: "error \<Rightarrow> ustr" where
  "message (Exc c m) = m"

text \<open>\<open>xs[i]\<close> on a list: a negative index counts from the end, anything else out of
  range raises IndexError ("list index out of range").\<close>

definition index_msg :: ustr where
  "index_msg = [108, 105, 115, 116, 32, 105, 110, 100, 101, 120, 32, 111, 117, 116, 32, 111,
     102, 32, 114, 97, 110, 103, 101]"

definition subscript :: "'a list \<Rightarrow> int \<Rightarrow> error + 'a" where
  "subscript xs i =
     (if 0 \<le> i \<and> i < int (length xs) then Inr (xs ! nat i)
      else if i < 0 \<and> - int (length xs) \<le> i then Inr (xs ! nat (int (length xs) + i))
      else Inl (Exc IndexError index_msg))"

section \<open>The rule engine: \<open>_extract_by_rules\<close>\<close>

subsection \<open>Vocabulary\<close>

text \<open>The labels, by code point, with their reading and meaning.\<close>

definition lbl_meishou :: ustr where \<comment> \<open>meishou, "name"\<close>
  "lbl_meishou = [21517, 31216]"
definition lbl_hinmei :: ustr where \<comment> \<open>hinmei, "part name"\<close>
  "lbl_hinmei = [21697, 21517]"
definition lbl_zaishitsu :: ustr where \<comment> \<open>zaishitsu, "material"\<close>
  "lbl_zaishitsu = [26448, 36074]"
definition lbl_hyoumen_shori :: ustr where \<comment> \<open>hyoumen shori, "surface treatment"\<close>
  "lbl_hyoumen_shori = [34920, 38754, 20966, 29702]"
definition lbl_zuban :: ustr where \<comment> \<open>zuban, "drawing number"\<close>
  "lbl_zuban = [22259, 30058]"
definition lbl_netsu_shori :: ustr where \<comment> \<open>netsu shori, "heat treatment"\<close>
  "lbl_netsu_shori = [29105, 20966, 29702]"
definition lbl_shori_shiji :: ustr where \<comment> \<open>shori shiji, "processing instruction"\<close>
  "lbl_shori_shiji = [20966, 29702, 25351, 31034]"
definition lbl_youshi :: ustr where \<comment> \<open>youshi, "paper"\<close>
  "lbl_youshi = [29992, 32025]"
definition lbl_shakudo :: ustr where \<comment> \<open>shakudo, "scale"\<close>
  "lbl_shakudo = [23610, 24230]"
definition lbl_sakuseisha :: ustr where \<comment> \<open>sakuseisha, "drawn by"\<close>
  "lbl_sakuseisha = [20316, 25104, 32773]"
definition lbl_kakuninsha :: ustr where \<comment> \<open>kakuninsha, "checked by"\<close>
  "lbl_kakuninsha = [30906, 35469, 32773]"
definition lbl_shouninsha :: ustr where \<comment> \<open>shouninsha, "approved by"\<close>
  "lbl_shouninsha = [25215, 35469, 32773]"
definition lbl_buhinzu :: ustr where \<comment> \<open>buhinzu, "part drawing"\<close>
  "lbl_buhinzu = [37096, 21697, 22259]"
definition lbl_kumitatezu :: ustr where \<comment> \<open>kumitatezu, "assembly drawing"\<close>
  "lbl_kumitatezu = [32068, 31435, 22259]"
definition lbl_shutsuzubi :: ustr where \<comment> \<open>shutsuzubi, "issue date"\<close>
  "lbl_shutsuzubi = [20986, 22259, 26085]"

text \<open>\<open>_KNOWN_LABELS\<close> (a frozenset, used for membership only).\<close>

definition KNOWN_LABELS :: "ustr list" where
  "KNOWN_LABELS = [lbl_meishou, lbl_hinmei, lbl_zaishitsu, lbl_hyoumen_shori, lbl_zuban,
     lbl_netsu_shori, lbl_shori_shiji, lbl_youshi, lbl_shakudo, lbl_sakuseisha,
     lbl_kakuninsha, lbl_shouninsha, lbl_buhinzu, lbl_kumitatezu]"

text \<open>\<open>_EXTRACTION_LABELS\<close>.\<close>

definition EXTRACTION_LABELS :: "ustr list" where
  "EXTRACTION_LABELS = [lbl_meishou, lbl_hinmei, lbl_zaishitsu, lbl_hyoumen_shori, lbl_zuban,
     lbl_netsu_shori, lbl_shori_shiji, lbl_shutsuzubi]"

text \<open>The output keys of the rule engine, and \<open>_LABEL_TO_KEY\<close>.\<close>

datatype field_key =
  Title | Drawing_no | Part_name | Material | Surface_treatment | Process_note | Issue_date

definition LABEL_TO_KEY :: "(ustr \<times> field_key) list" where
  "LABEL_TO_KEY = [(lbl_meishou, Part_name), (lbl_hinmei, Part_name), (lbl_zaishitsu, Material),
     (lbl_hyoumen_shori, Surface_treatment), (lbl_zuban, Drawing_no),
     (lbl_netsu_shori, Process_note), (lbl_shori_shiji, Process_note),
     (lbl_shutsuzubi, Issue_date), (lbl_buhinzu, Title), (lbl_kumitatezu, Title)]"

text \<open>
  \<open>_SURFACE_OR_MATERIAL_TERMS\<close>: sanarai (pickling), denchaku tosou (electrodeposition
  coating), kurozome (black oxide), bafu kenma (buffing), mushori (untreated), mekki
  (plating), kenma (polishing), tosou (painting), kuromeeto (chromate), arumaito
  (anodising), rinsan'en shori (phosphate treatment).
\<close>

definition SURFACE_OR_MATERIAL_TERMS :: "ustr list" where
  "SURFACE_OR_MATERIAL_TERMS = [ [37240, 27927, 12356], [38651, 30528, 22615, 35013],
     [40658, 26579, 12417], [12496, 12501, 30740, 30952], [28961, 20966, 29702],
     [12417, 12387, 12365], [30740, 30952], [22615, 35013],
     [12463, 12525, 12513, 12540, 12488], [12450, 12523, 12510, 12452, 12488],
     [12522, 12531, 37240, 22633, 20966, 29702] ]"

text \<open>\<open>_NON_DRAWING_NO_TERMS\<close>: "IC", "IA", "IB", "A", "B", "A3", "A4", "1/1".\<close>

definition NON_DRAWING_NO_TERMS :: "ustr list" where
  "NON_DRAWING_NO_TERMS = [ [73, 67], [73, 65], [73, 66], [65], [66], [65, 51], [65, 52], [49, 47, 49] ]"

subsection \<open>The result record\<close>

record fields =
  title :: "ustr option"
  drawing_no :: "ustr option"
  part_name :: "ustr option"
  material :: "ustr option"
  surface_treatment :: "ustr option"
  process_note :: "ustr option"
  issue_date :: "ustr option"
  tags :: "ustr list"

definition empty_fields :: fields where
  "empty_fields = \<lparr>title = None, drawing_no = None, part_name = None, material = None,
     surface_treatment = None, process_note = None, issue_date = None, tags = []\<rparr>"

fun set_field :: "field_key \<Rightarrow> ustr option \<Rightarrow> fields \<Rightarrow> fields" where
  "set_field Title v r = r\<lparr>title := v\<rparr>"
| "set_field Drawing_no v r = r\<lparr>drawing_no := v\<rparr>"
| "set_field Part_name v r = r\<lparr>part_name := v\<rparr>"
| "set_field Material v r = r\<lparr>material := v\<rparr>"
| "set_field Surface_treatment v r = r\<lparr>surface_treatment := v\<rparr>"
| "set_field Process_note v r = r\<lparr>process_note := v\<rparr>"
| "set_field Issue_date v r = r\<lparr>issue_date := v\<rparr>"

text \<open>Python truth of a value that is a \<open>str\<close> or \<open>None\<close>.\<close>

fun truthy :: "ustr option \<Rightarrow> bool" where
  "truthy None = False"
| "truthy (Some s) = (s \<noteq> [])"

subsection \<open>The line scan\<close>

text \<open>\<open>[line.strip() for line in ocr_text.splitlines() if line.strip()]\<close>\<close>

definition text_lines :: "ustr \<Rightarrow> ustr list" where
  "text_lines ocr_text = map strip (filter (\<lambda>line. strip line \<noteq> []) (splitlines ocr_text))"

text \<open>The three candidates of a label at line \<open>i\<close>.\<close>

definition value_next :: "ustr list \<Rightarrow> int \<Rightarrow> error + ustr option" where
  "value_next lines i =
     (if i + 1 < int (length lines) then
        (case subscript lines (i + 1) of
           Inl e \<Rightarrow> Inl e
         | Inr l \<Rightarrow> Inr (if l \<notin> set KNOWN_LABELS then Some (strip l) else None))
      else Inr None)"

definition value_prev :: "ustr list \<Rightarrow> int \<Rightarrow> error + ustr option" where
  "value_prev lines i =
     (if i - 1 \<ge> 0 then
        (case subscript lines (i - 1) of
           Inl e \<Rightarrow> Inl e
         | Inr l \<Rightarrow> Inr (if l \<notin> set KNOWN_LABELS then Some (strip l) else None))
      else Inr None)"

function value_first_non_label :: "ustr list \<Rightarrow> int \<Rightarrow> error + ustr option" where
  "value_first_non_label lines j =
     (if j < int (length lines) then
        (case subscript lines j of
           Inl e \<Rightarrow> Inl e
         | Inr l \<Rightarrow> if l \<notin> set KNOWN_LABELS then Inr (Some (strip l))
                    else value_first_non_label lines (j + 1))
      else Inr None)"
  by pat_completeness auto
termination
  by (relation "measure (\<lambda>(lines, j). nat (int (length lines) - j))") auto

declare value_first_non_label.simps [simp del]

text \<open>Which candidate is taken, by output key.\<close>

definition choose_value ::
  "field_key \<Rightarrow> ustr option \<Rightarrow> ustr option \<Rightarrow> ustr option \<Rightarrow> ustr option" where
  "choose_value out_key vnext vprev vfirst =
     (if out_key = Part_name \<or> out_key = Title then
        (if truthy vnext \<and> the vnext \<in> set SURFACE_OR_MATERIAL_TERMS
         then (if truthy vprev then vprev else vnext)
         else (if truthy vnext then vnext else vprev))
      else
        (let v = (if truthy vnext then vnext else vfirst)
         in if v = None then vprev else v))"

text \<open>Strip a leading \<open>|\<close> (code point 124); a page marker is no value.\<close>

definition normalize_value :: "ustr option \<Rightarrow> ustr option" where
  "normalize_value v =
     (if truthy v then
        (let s = strip (lstrip_chars [124] (the v))
         in if page_sep_match s then None else Some s)
      else v)"

text \<open>The three rejections, in the order of the source.\<close>

definition reject_value :: "field_key \<Rightarrow> fields \<Rightarrow> ustr option \<Rightarrow> ustr option" where
  "reject_value out_key result v =
     (let v1 = (if truthy v \<and> (out_key = Part_name \<or> out_key = Title) then
                  (if the v \<in> set SURFACE_OR_MATERIAL_TERMS then None
                   else if drawing_no_match (the v) then None else v)
                else v);
          v2 = (if truthy v1 \<and> out_key = Drawing_no \<and> the v1 \<in> set NON_DRAWING_NO_TERMS
                then None else v1)
      in if truthy v2 \<and> out_key = Process_note \<and> v2 = material result then None else v2)"

definition store_value :: "field_key \<Rightarrow> ustr option \<Rightarrow> fields \<Rightarrow> fields" where
  "store_value out_key v result =
     (if truthy v \<and> out_key \<in> {Part_name, Material, Surface_treatment, Process_note, Drawing_no, Title}
      then set_field out_key v result
      else if truthy v \<and> out_key = Issue_date then
        (if date_search 45 (the v) \<or> date_search 47 (the v) then set_field out_key v result
         else result)
      else result)"

text \<open>One iteration of \<open>for i, line in enumerate(lines)\<close>.\<close>

definition rule_step :: "ustr list \<Rightarrow> nat \<Rightarrow> ustr \<Rightarrow> fields \<Rightarrow> error + fields" where
  "rule_step lines i line result =
     (if line \<notin> set KNOWN_LABELS then Inr result
      else case map_of LABEL_TO_KEY line of
        None \<Rightarrow> Inr result
      | Some out_key \<Rightarrow>
          (case value_next lines (int i) of
             Inl e \<Rightarrow> Inl e
           | Inr vnext \<Rightarrow>
          (case value_prev lines (int i) of
             Inl e \<Rightarrow> Inl e
           | Inr vprev \<Rightarrow>
          (case value_first_non_label lines (int i + 1) of
             Inl e \<Rightarrow> Inl e
           | Inr vfirst \<Rightarrow>
               Inr (store_value out_key
                      (reject_value out_key result
                         (normalize_value (choose_value out_key vnext vprev vfirst)))
                      result)))))"

fun scan_lines :: "ustr list \<Rightarrow> (nat \<times> ustr) list \<Rightarrow> fields \<Rightarrow> error + fields" where
  "scan_lines lines [] result = Inr result"
| "scan_lines lines ((i, line) # rest) result =
     (case rule_step lines i line result of
        Inl e \<Rightarrow> Inl e
      | Inr result' \<Rightarrow> scan_lines lines rest result')"

text \<open>The search of the whole text for a drawing number, after the scan.\<close>

definition regex_drawing_no :: "ustr \<Rightarrow> fields \<Rightarrow> fields" where
  "regex_drawing_no ocr_text result =
     (case drawing_no_search ocr_text of
        None \<Rightarrow> result
      | Some candidate \<Rightarrow>
          (let current = drawing_no result
           in if \<not> truthy current \<or> \<not> drawing_no_match (the current)
              then result\<lparr>drawing_no := Some candidate\<rparr> else result))"

definition extract_by_rules :: "ustr \<Rightarrow> error + fields" where
  "extract_by_rules ocr_text =
     (if ocr_text = [] \<or> strip ocr_text = [] then Inr empty_fields
      else
        (let lines = text_lines ocr_text
         in if lines = [] then Inr empty_fields
            else case scan_lines lines (enumerate 0 lines) empty_fields of
                   Inl e \<Rightarrow> Inl e
                 | Inr result \<Rightarrow> Inr (regex_drawing_no ocr_text result)))"

text \<open>
  The same step as the specification words it: the scanned value is kept only when it is
  itself in the pattern.
\<close>

definition regex_drawing_no_exact :: "ustr \<Rightarrow> fields \<Rightarrow> fields" where
  "regex_drawing_no_exact ocr_text result =
     (case drawing_no_search ocr_text of
        None \<Rightarrow> result
      | Some candidate \<Rightarrow>
          (let current = drawing_no result
           in if \<not> truthy current \<or> \<not> is_drawing_no (the current)
              then result\<lparr>drawing_no := Some candidate\<rparr> else result))"

section \<open>The first-page restriction: \<open>_first_page_ocr_text\<close>\<close>

text \<open>
  The four separators of the source, in its order: \<open>[<page> 2]\<close>, \<open>[<page> 3]\<close>,
  \<open>[<page> 4]\<close>, \<open>[<page> 5]\<close>, where \<open><page>\<close> is U+30DA U+30FC U+30B8 and the digit
  follows one space.
\<close>

definition PAGE_MARKERS :: "ustr list" where
  "PAGE_MARKERS = [ [91, 12506, 12540, 12472, 32, 50, 93], [91, 12506, 12540, 12472, 32, 51, 93],
     [91, 12506, 12540, 12472, 32, 52, 93], [91, 12506, 12540, 12472, 32, 53, 93] ]"

text \<open>\<open>for sep in (...): if sep in ocr_text: return ocr_text.split(sep)[0].strip()\<close>\<close>

fun first_page_loop :: "ustr list \<Rightarrow> ustr \<Rightarrow> ustr" where
  "first_page_loop [] ocr_text = ocr_text"
| "first_page_loop (sep # seps) ocr_text =
     (if contains sep ocr_text then strip (split_head sep ocr_text)
      else first_page_loop seps ocr_text)"

definition first_page_ocr_text :: "ustr \<Rightarrow> ustr" where
  "first_page_ocr_text ocr_text =
     (if ocr_text = [] then ocr_text else first_page_loop PAGE_MARKERS ocr_text)"

text \<open>
  The restriction as the specification words it: the prefix strictly before the marker
  that occurs first in the text, whichever of the four it is, stripped; the whole text
  when no marker occurs. \<open>before_earliest seps s\<close> walks the text and stops at the first
  position where any separator starts.
\<close>

fun before_earliest :: "ustr list \<Rightarrow> ustr \<Rightarrow> ustr option" where
  "before_earliest seps [] = None"
| "before_earliest seps (c # cs) =
     (if list_ex (startswith (c # cs)) seps then Some []
      else map_option ((#) c) (before_earliest seps cs))"

definition first_page_by_position :: "ustr \<Rightarrow> ustr" where
  "first_page_by_position ocr_text =
     (case before_earliest PAGE_MARKERS ocr_text of None \<Rightarrow> ocr_text | Some p \<Rightarrow> strip p)"

section \<open>JSON values and dictionaries\<close>

text \<open>
  \<open>extracted_json\<close>, the results of the generative model and the payloads of the
  database are JSON documents (\<open>dict[str, Any]\<close>). A dictionary is the list of its
  items in insertion order. JSON numbers are limited to integers here: no claim reads a
  fractional value.
\<close>

datatype json =
  JNull | JBool bool | JInt int | JStr ustr | JList "json list" | JObj "(ustr \<times> json) list"

type_synonym dict = "(ustr \<times> json) list"

text \<open>The truth value Python gives a JSON value in \<open>if v:\<close>.\<close>

fun py_bool :: "json \<Rightarrow> bool" where
  "py_bool JNull = False"
| "py_bool (JBool b) = b"
| "py_bool (JInt n) = (n \<noteq> 0)"
| "py_bool (JStr s) = (s \<noteq> [])"
| "py_bool (JList xs) = (xs \<noteq> [])"
| "py_bool (JObj kvs) = (kvs \<noteq> [])"

fun is_list :: "json \<Rightarrow> bool" where
  "is_list (JList xs) = True"
| "is_list v = False"

text \<open>\<open>d.get(k)\<close> (None when the key is missing) and \<open>d[k] = v\<close>.\<close>

definition dict_get :: "dict \<Rightarrow> ustr \<Rightarrow> json" where
  "dict_get d k = (case map_of d k of None \<Rightarrow> JNull | Some v \<Rightarrow> v)"

fun dict_set :: "dict \<Rightarrow> ustr \<Rightarrow> json \<Rightarrow> dict" where
  "dict_set [] k v = [(k, v)]"
| "dict_set ((k', v') # rest) k v =
     (if k' = k then (k, v) # rest else (k', v') # dict_set rest k v)"

text \<open>
  \<open>x.get(k, default)\<close> on a value that need not be a dictionary: anything else has no
  \<open>get\<close> and raises AttributeError.
\<close>

definition no_get_msg :: ustr where \<comment> \<open>"object has no attribute 'get'"\<close>
  "no_get_msg = [111, 98, 106, 101, 99, 116, 32, 104, 97, 115, 32, 110, 111, 32, 97, 116, 116,
     114, 105, 98, 117, 116, 101, 32, 39, 103, 101, 116, 39]"

fun obj_get :: "json \<Rightarrow> ustr \<Rightarrow> json \<Rightarrow> error + json" where
  "obj_get (JObj d) k dflt = Inr (case map_of d k of None \<Rightarrow> dflt | Some v \<Rightarrow> v)"
| "obj_get v k dflt = Inl (Exc AttributeError no_get_msg)"

text \<open>The keys: the eight column names, and the keys of \<open>extracted_json\<close>.\<close>

definition k_title :: ustr where
  "k_title = [116, 105, 116, 108, 101]"
definition k_drawing_no :: ustr where
  "k_drawing_no = [100, 114, 97, 119, 105, 110, 103, 95, 110, 111]"
definition k_part_name :: ustr where
  "k_part_name = [112, 97, 114, 116, 95, 110, 97, 109, 101]"
definition k_material :: ustr where
  "k_material = [109, 97, 116, 101, 114, 105, 97, 108]"
definition k_surface_treatment :: ustr where
  "k_surface_treatment = [115, 117, 114, 102, 97, 99, 101, 95, 116, 114, 101, 97, 116, 109, 101, 110, 116]"
definition k_process_note :: ustr where
  "k_process_note = [112, 114, 111, 99, 101, 115, 115, 95, 110, 111, 116, 101]"
definition k_issue_date :: ustr where
  "k_issue_date = [105, 115, 115, 117, 101, 95, 100, 97, 116, 101]"
definition k_tags :: ustr where
  "k_tags = [116, 97, 103, 115]"
definition k_ocr :: ustr where
  "k_ocr = [111, 99, 114]"
definition k_ai :: ustr where
  "k_ai = [97, 105]"
definition k_ocr_text :: ustr where
  "k_ocr_text = [111, 99, 114, 95, 116, 101, 120, 116]"
definition k_pages :: ustr where
  "k_pages = [112, 97, 103, 101, 115]"
definition k_page_no :: ustr where
  "k_page_no = [112, 97, 103, 101, 95, 110, 111]"
definition k_text :: ustr where
  "k_text = [116, 101, 120, 116]"
definition k_extracted_json :: ustr where
  "k_extracted_json = [101, 120, 116, 114, 97, 99, 116, 101, 100, 95, 106, 115, 111, 110]"

text \<open>The rule engine's record as the dictionary the source builds, keys in its order.\<close>

fun json_of_opt :: "ustr option \<Rightarrow> json" where
  "json_of_opt None = JNull"
| "json_of_opt (Some s) = JStr s"

definition dict_of_fields :: "fields \<Rightarrow> dict" where
  "dict_of_fields r =
     [(k_title, json_of_opt (title r)), (k_drawing_no, json_of_opt (drawing_no r)),
      (k_part_name, json_of_opt (part_name r)), (k_material, json_of_opt (material r)),
      (k_surface_treatment, json_of_opt (surface_treatment r)),
      (k_process_note, json_of_opt (process_note r)),
      (k_issue_date, json_of_opt (issue_date r)), (k_tags, JList (map JStr (tags r)))]"

section \<open>\<open>_has_any_extracted_value\<close>\<close>

fun has_any_items :: "dict \<Rightarrow> bool" where
  "has_any_items [] = False"
| "has_any_items ((k, v) # rest) =
     (if k = k_tags then
        (if py_bool v \<and> is_list v then True else has_any_items rest)
      else if v \<noteq> JNull \<and> v \<noteq> JStr [] then True
      else has_any_items rest)"

text \<open>On anything but a dictionary \<open>data.items()\<close> raises AttributeError.\<close>

definition no_items_msg :: ustr where \<comment> \<open>"object has no attribute 'items'"\<close>
  "no_items_msg = [111, 98, 106, 101, 99, 116, 32, 104, 97, 115, 32, 110, 111, 32, 97, 116, 116,
     114, 105, 98, 117, 116, 101, 32, 39, 105, 116, 101, 109, 115, 39]"

fun has_any_extracted_value :: "json \<Rightarrow> error + bool" where
  "has_any_extracted_value (JObj d) = Inr (has_any_items d)"
| "has_any_extracted_value v = Inl (Exc AttributeError no_items_msg)"

section \<open>\<open>_preprocess_ocr_for_extraction\<close>\<close>

text \<open>
  The pairs of a label and the first non-label line after it. The inner loop of the
  source is the loop of \<open>value_first_non_label\<close>, with the empty string where that one
  has None.
\<close>

fun label_pairs :: "ustr list \<Rightarrow> (nat \<times> ustr) list \<Rightarrow> error + (ustr \<times> ustr) list" where
  "label_pairs lines [] = Inr []"
| "label_pairs lines ((i, line) # rest) =
     (if line \<in> set KNOWN_LABELS then
        (case value_first_non_label lines (int i + 1) of
           Inl e \<Rightarrow> Inl e
         | Inr found \<Rightarrow>
             (case label_pairs lines rest of
                Inl e \<Rightarrow> Inl e
              | Inr pairs \<Rightarrow>
                  Inr (if truthy found then (line, the found) # pairs else pairs)))
      else label_pairs lines rest)"

text \<open>\<open>"\n".join(f"{k}: {v}" for k, v in filtered)\<close>\<close>

fun join_pairs :: "(ustr \<times> ustr) list \<Rightarrow> ustr" where
  "join_pairs [] = []"
| "join_pairs [(k, v)] = k @ [58, 32] @ v"
| "join_pairs ((k, v) # kv # rest) = k @ [58, 32] @ v @ [10] @ join_pairs (kv # rest)"

definition preprocess_ocr_for_extraction :: "ustr \<Rightarrow> error + ustr" where
  "preprocess_ocr_for_extraction ocr_text =
     (if ocr_text = [] \<or> strip ocr_text = [] then Inr ocr_text
      else
        (let lines = text_lines ocr_text
         in if lines = [] then Inr ocr_text
            else case label_pairs lines (enumerate 0 lines) of
                   Inl e \<Rightarrow> Inl e
                 | Inr pairs \<Rightarrow>
                     if pairs = [] then Inr ocr_text
                     else (let filtered = filter (\<lambda>(k, v). k \<in> set EXTRACTION_LABELS) pairs
                           in if filtered = [] then Inr ocr_text
                              else Inr (join_pairs filtered))))"

section \<open>\<open>datetime.strptime(s, "%Y-%m-%d")\<close>\<close>

text \<open>
  Whether the call returns. The library compiles the format to the regular expression
  \<open>(\d\d\d\d)-(1[0-2]|0[1-9]|[1-9])-(3[0-1]|[1-2]\d|0[1-9]|[1-9]| [1-9])\<close>, matches it
  at the start of the string, rejects a string with anything left over, and then builds
  the date, which fails for year 0 and for a day the month does not have. The leading
  zero of month and day is optional. The alternatives of the month exclude each other
  once the hyphen must follow, so taking the first that matches loses nothing.
\<close>

definition match_month :: "ustr \<Rightarrow> nat option" where
  "match_month s =
     (if 2 \<le> length s \<and> s ! 0 = 49 \<and> 48 \<le> s ! 1 \<and> s ! 1 \<le> 50 then Some 2
      else if 2 \<le> length s \<and> s ! 0 = 48 \<and> 49 \<le> s ! 1 \<and> s ! 1 \<le> 57 then Some 2
      else if 1 \<le> length s \<and> 49 \<le> s ! 0 \<and> s ! 0 \<le> 57 then Some 1
      else None)"

definition match_day :: "ustr \<Rightarrow> nat option" where
  "match_day s =
     (if 2 \<le> length s \<and> s ! 0 = 51 \<and> 48 \<le> s ! 1 \<and> s ! 1 \<le> 49 then Some 2
      else if 2 \<le> length s \<and> 49 \<le> s ! 0 \<and> s ! 0 \<le> 50 \<and> isdigit (s ! 1) then Some 2
      else if 2 \<le> length s \<and> s ! 0 = 48 \<and> 49 \<le> s ! 1 \<and> s ! 1 \<le> 57 then Some 2
      else if 1 \<le> length s \<and> 49 \<le> s ! 0 \<and> s ! 0 \<le> 57 then Some 1
      else if 2 \<le> length s \<and> s ! 0 = 32 \<and> 49 \<le> s ! 1 \<and> s ! 1 \<le> 57 then Some 2
      else None)"

text \<open>\<open>int(s)\<close> for a string of decimal digits of any script.\<close>

definition digit_value :: "nat \<Rightarrow> nat" where
  "digit_value c =
     (case find (\<lambda>z. z \<le> c \<and> c \<le> z + 9) nd_zero of
        Some z \<Rightarrow> c - z
      | None \<Rightarrow> (c - 120782) mod 10)"

definition int_of_digits :: "ustr \<Rightarrow> nat" where
  "int_of_digits s = foldl (\<lambda>n c. 10 * n + digit_value c) 0 s"

definition days_in_month :: "nat \<Rightarrow> nat \<Rightarrow> nat" where
  "days_in_month y m =
     (if m = 2 then (if y mod 4 = 0 \<and> (y mod 100 \<noteq> 0 \<or> y mod 400 = 0) then 29 else 28)
      else if m = 4 \<or> m = 6 \<or> m = 9 \<or> m = 11 then 30 else 31)"

definition strptime_ymd :: "ustr \<Rightarrow> bool" where
  "strptime_ymd s \<longleftrightarrow>
     4 \<le> length s \<and> list_all isdigit (take 4 s) \<and>
     (let r1 = drop 4 s
      in r1 \<noteq> [] \<and> hd r1 = 45 \<and>
         (case match_month (tl r1) of
            None \<Rightarrow> False
          | Some ml \<Rightarrow>
              (let r2 = drop ml (tl r1)
               in r2 \<noteq> [] \<and> hd r2 = 45 \<and>
                  (case match_day (tl r2) of
                     None \<Rightarrow> False
                   | Some dl \<Rightarrow>
                       length (tl r2) = dl \<and>
                       1 \<le> int_of_digits (take 4 s) \<and>
                       int_of_digits (filter (\<lambda>c. c \<noteq> 32) (tl r2))
                         \<le> days_in_month (int_of_digits (take 4 s))
                              (int_of_digits (take ml (tl r1)))))))"

text \<open>
  The \<open>try: datetime.strptime(issue_date_str, "%Y-%m-%d")\<close> block: a value that is not a
  string raises TypeError, a string that does not parse ValueError, and both are caught.
\<close>

fun date_accepted :: "json \<Rightarrow> bool" where
  "date_accepted (JStr s) = strptime_ymd s"
| "date_accepted v = False"

definition validate_issue_date :: "dict \<Rightarrow> dict" where
  "validate_issue_date d =
     (let issue_date_str = dict_get d k_issue_date
      in if py_bool issue_date_str then
           (if date_accepted issue_date_str then d else dict_set d k_issue_date JNull)
         else d)"

section \<open>The persistent state and the external collaborators\<close>

text \<open>
  All persistent state lives in the external store; the model keeps it in one record
  that every operation takes and returns. Identifiers and paths are strings; a byte
  string is a list of numbers; a null text column is the empty string (the source tests
  both with \<open>if not x\<close>).
\<close>

type_synonym ident = ustr
type_synonym bytes = "nat list"

datatype job_status = Queued | Running | Success | Error

record job =
  job_id :: ident
  job_drawing_id :: ident
  job_status :: job_status
  job_step :: "ustr option"
  error_message :: "ustr option"
  started_at :: "nat option"
  finished_at :: "nat option"
  created_at :: nat

datatype file_type = Original | Page_image | Thumbnail

record drawing_file =
  file_id :: ident
  file_drawing_id :: ident
  file_type :: file_type
  file_mime :: ustr
  file_page_no :: "int option"
  file_gcs_path :: ustr
  image_width :: "int option"
  image_height :: "int option"

text \<open>
  A row of \<open>drawings\<close>: its status, its owner, the document \<open>extracted_json\<close> and the
  eight mirrored columns, by column name.
\<close>

record drawing =
  drawing_status :: ustr
  company_id :: ustr
  extracted_json :: json
  columns :: "ustr \<rightharpoonup> json"

text \<open>
  A word recognised by the OCR engine. The coordinates and the confidence are floating
  point numbers in the source; they are only copied, so integers stand for them.
\<close>

record token =
  tok_text :: ustr
  tok_box :: "int \<times> int \<times> int \<times> int"
  tok_confidence :: "int option"
  tok_level :: ustr

record ocr_output =
  out_text :: ustr
  out_tokens :: "token list"
  out_width :: int
  out_height :: int

record token_row =
  row_drawing_id :: ident
  row_page_file_id :: ident
  row_page_no :: int
  row_token :: token

text \<open>
  The calls the pipeline makes to its collaborators and to its own stages are recorded
  in the state, in order, so that "is never invoked" and "is not run" can be stated.
\<close>

datatype stage = Rasterize | Ocr | Extract | Vectorize

datatype call =
    Run_stage stage
  | Download ustr
  | Ocr_engine bytes
  | Multimodal bytes ustr ustr
  | Text_only ustr
  | Embed ustr
  | Upsert ident

record world =
  jobs :: "job list"
  drawings :: "ident \<rightharpoonup> drawing"
  files :: "drawing_file list"
  ocr_tokens :: "token_row list"
  calls :: "call list"
  clock :: nat

definition record_call :: "call \<Rightarrow> world \<Rightarrow> world" where
  "record_call c w = w\<lparr>calls := calls w @ [c]\<rparr>"

text \<open>The texts handed to the generative model by the calls of a trace, in their order.\<close>

fun prompts :: "call list \<Rightarrow> ustr list" where
  "prompts [] = []"
| "prompts (Multimodal image_bytes ocr_text mime # cs) = ocr_text # prompts cs"
| "prompts (Text_only ocr_text # cs) = ocr_text # prompts cs"
| "prompts (c # cs) = prompts cs"

text \<open>
  The operations the source may see fail inside the OCR stage's inner \<open>try\<close>: the update
  of the image size of a page, the deletion of its tokens, the insertion of one batch.
\<close>

datatype db_write = Update_size ident | Delete_tokens ident | Insert_batch ident nat

text \<open>
  The collaborators, and the configuration. Each collaborator returns a value or raises.
  \<open>multimodal\<close> and \<open>text_only\<close> are \<open>extract_drawing_fields_multimodal\<close> and
  \<open>extract_drawing_fields\<close> taken whole (prompt, call of the model, decoding of its
  answer); \<open>embed\<close> is \<open>_get_embedding\<close>, which returns None instead of raising;
  \<open>process_pdf\<close> is the rasterizer of \<open>pdf_processor.py\<close>, which leaves the state it
  has reached when it raises; \<open>py_str\<close> is the built-in \<open>str\<close> on a JSON value that is
  not a string. \<open>db_write_fails\<close> says which writes of the OCR stage raise, and
  \<open>db_write_error\<close> what they raise. Reads of the store, and the writes outside the OCR
  stage, are taken to succeed.
\<close>

record env =
  supabase_configured :: bool
  pinecone_configured :: bool
  download :: "ustr \<Rightarrow> error + bytes"
  ocr_engine :: "bytes \<Rightarrow> error + ocr_output"
  db_write_fails :: "db_write \<Rightarrow> bool"
  db_write_error :: error
  multimodal :: "bytes \<Rightarrow> ustr \<Rightarrow> ustr \<Rightarrow> error + json"
  text_only :: "ustr \<Rightarrow> error + json"
  embed :: "ustr \<Rightarrow> int list option"
  upsert :: "ident \<Rightarrow> int list \<Rightarrow> error + unit"
  process_pdf :: "ident \<Rightarrow> ustr \<Rightarrow> world \<Rightarrow> error option \<times> world"
  py_str :: "json \<Rightarrow> ustr"

text \<open>
  \<open>.eq("drawing_id", d).eq("type", t)\<close> on \<open>drawing_files\<close>, and
  \<open>.order("page_no", desc=False)\<close>: ascending, rows without a page number last, rows
  with equal page numbers in stored order.
\<close>

definition files_of :: "world \<Rightarrow> ident \<Rightarrow> file_type \<Rightarrow> drawing_file list" where
  "files_of w d t = filter (\<lambda>f. file_drawing_id f = d \<and> file_type f = t) (files w)"

fun page_no_le :: "int option \<Rightarrow> int option \<Rightarrow> bool" where
  "page_no_le (Some a) (Some b) = (a \<le> b)"
| "page_no_le (Some a) None = True"
| "page_no_le None (Some b) = False"
| "page_no_le None None = True"

fun insert_by_page_no :: "drawing_file \<Rightarrow> drawing_file list \<Rightarrow> drawing_file list" where
  "insert_by_page_no f [] = [f]"
| "insert_by_page_no f (g # gs) =
     (if page_no_le (file_page_no f) (file_page_no g) then f # g # gs
      else g # insert_by_page_no f gs)"

definition order_by_page_no :: "drawing_file list \<Rightarrow> drawing_file list" where
  "order_by_page_no fs = foldr insert_by_page_no fs []"

text \<open>\<open>supabase.table("drawings").update(payload).eq("id", d).execute()\<close>: the columns
  of the payload are set on the row, when there is one.\<close>

fun apply_payload :: "dict \<Rightarrow> drawing \<Rightarrow> drawing" where
  "apply_payload [] row = row"
| "apply_payload ((k, v) # rest) row =
     apply_payload rest
       (if k = k_extracted_json then row\<lparr>extracted_json := v\<rparr>
        else row\<lparr>columns := (columns row)(k \<mapsto> v)\<rparr>)"

definition update_drawing :: "ident \<Rightarrow> dict \<Rightarrow> world \<Rightarrow> world" where
  "update_drawing d payload w =
     (case drawings w d of
        None \<Rightarrow> w
      | Some row \<Rightarrow> w\<lparr>drawings := (drawings w)(d \<mapsto> apply_payload payload row)\<rparr>)"

section \<open>The extraction cascade: \<open>process_ai_extraction_for_drawing\<close>\<close>

text \<open>
  A function of the pipeline returns its value or its exception together with the state
  it has reached: collaborators that were called stay called when a later step raises.
\<close>

type_synonym 'a outcome = "(error + 'a) \<times> world"

text \<open>
  \<open>extracted_json = drawing.data.get("extracted_json") or {}\<close>,
  \<open>ocr_result = extracted_json.get("ocr", {})\<close>,
  \<open>ocr_text = ocr_result.get("ocr_text", "")\<close>.
\<close>

definition stored_ocr_text :: "drawing \<Rightarrow> error + json" where
  "stored_ocr_text row =
     (let ej = (if py_bool (extracted_json row) then extracted_json row else JObj [])
      in case obj_get ej k_ocr (JObj []) of
           Inl e \<Rightarrow> Inl e
         | Inr ocr_result \<Rightarrow> obj_get ocr_result k_ocr_text (JStr []))"

text \<open>
  A stored text that is true but not a string: \<open>sep in ocr_text\<close> raises TypeError on a
  number or a boolean; a list or a dictionary passes the separators and fails at
  \<open>ocr_text.strip()\<close> with AttributeError.
\<close>

definition not_str_msg :: ustr where \<comment> \<open>"not a str"\<close>
  "not_str_msg = [110, 111, 116, 32, 97, 32, 115, 116, 114]"

fun not_str_error :: "json \<Rightarrow> error" where
  "not_str_error (JList xs) = Exc AttributeError not_str_msg"
| "not_str_error (JObj d) = Exc AttributeError not_str_msg"
| "not_str_error v = Exc TypeError not_str_msg"

text \<open>
  \<open>get_image_bytes_from_gcs\<close>: the download with every exception turned into None.
\<close>

definition get_image_bytes_from_gcs :: "env \<Rightarrow> ustr \<Rightarrow> world \<Rightarrow> bytes option \<times> world" where
  "get_image_bytes_from_gcs en gcs_path w =
     (case download en gcs_path of
        Inl e \<Rightarrow> (None, record_call (Download gcs_path) w)
      | Inr b \<Rightarrow> (Some b, record_call (Download gcs_path) w))"

definition default_mime :: ustr where \<comment> \<open>"image/png"\<close>
  "default_mime = [105, 109, 97, 103, 101, 47, 112, 110, 103]"

text \<open>
  Step 2a: the multimodal attempt on the first page image. The whole of it is inside
  \<open>try ... except Exception\<close>: an exception of the call, or of the test of its result,
  leaves \<open>ai_result\<close> as it was assigned last.
\<close>

definition multimodal_attempt :: "env \<Rightarrow> ident \<Rightarrow> ustr \<Rightarrow> world \<Rightarrow> json \<times> world" where
  "multimodal_attempt en drawing_id ocr_text_for_ai w =
     (case order_by_page_no (files_of w drawing_id Page_image) of
        [] \<Rightarrow> (JObj [], w)
      | first_page # others \<Rightarrow>
          (let gcs_path = file_gcs_path first_page;
               mime = (if file_mime first_page \<noteq> [] then file_mime first_page else default_mime)
           in if gcs_path = [] then (JObj [], w)
              else case get_image_bytes_from_gcs en gcs_path w of
                     (None, w1) \<Rightarrow> (JObj [], w1)
                   | (Some image_bytes, w1) \<Rightarrow>
                       if image_bytes = [] then (JObj [], w1)
                       else case multimodal en image_bytes ocr_text_for_ai mime of
                              Inl e \<Rightarrow> (JObj [], record_call (Multimodal image_bytes ocr_text_for_ai mime) w1)
                            | Inr ai_result \<Rightarrow>
                                (ai_result, record_call (Multimodal image_bytes ocr_text_for_ai mime) w1)))"

text \<open>\<open>not ai_result or not _has_any_extracted_value(ai_result)\<close>\<close>

definition unusable :: "json \<Rightarrow> error + bool" where
  "unusable ai_result =
     (if \<not> py_bool ai_result then Inr True
      else case has_any_extracted_value ai_result of
             Inl e \<Rightarrow> Inl e
           | Inr b \<Rightarrow> Inr (\<not> b))"

text \<open>Steps 2 to the end: the generative fallback.\<close>

definition generative_fallback :: "env \<Rightarrow> ident \<Rightarrow> ustr \<Rightarrow> world \<Rightarrow> json outcome" where
  "generative_fallback en drawing_id ocr_first w =
     (case preprocess_ocr_for_extraction ocr_first of
        Inl e \<Rightarrow> (Inl e, w)
      | Inr preprocessed \<Rightarrow>
          (let ocr_text_for_ai =
                 (if preprocessed \<noteq> [] \<and> preprocessed \<noteq> ocr_first then preprocessed
                  else ocr_first)
           in case multimodal_attempt en drawing_id ocr_text_for_ai w of
                (ai_result, w1) \<Rightarrow>
                  (case unusable ai_result of
                     Inl e \<Rightarrow> (Inl e, w1)
                   | Inr retry \<Rightarrow>
                       (let second =
                              (if retry then
                                 (case text_only en ocr_text_for_ai of
                                    Inl e \<Rightarrow> (Inl e, record_call (Text_only ocr_text_for_ai) w1)
                                  | Inr r \<Rightarrow> (Inr r, record_call (Text_only ocr_text_for_ai) w1))
                               else (Inr ai_result, w1))
                        in case second of
                             (Inl e, w2) \<Rightarrow> (Inl e, w2)
                           | (Inr ai_result2, w2) \<Rightarrow>
                               (case unusable ai_result2 of
                                  Inl e \<Rightarrow> (Inl e, w2)
                                | Inr True \<Rightarrow> (Inr (JObj []), w2)
                                | Inr False \<Rightarrow>
                                    (case ai_result2 of
                                       JObj d \<Rightarrow> (Inr (JObj (validate_issue_date d)), w2)
                                     | other \<Rightarrow> (Inl (Exc AttributeError no_get_msg), w2)))))))"

text \<open>
  \<open>x\<close> is the \<open>ocr_text_for_ai\<close> that the fallback computes from \<open>ocr_first\<close>: the
  preprocessed text when it is non-empty and differs from \<open>ocr_first\<close>, and \<open>ocr_first\<close>
  itself otherwise.
\<close>

definition ocr_text_for_ai_of :: "ustr \<Rightarrow> ustr \<Rightarrow> bool" where
  "ocr_text_for_ai_of ocr_first x \<longleftrightarrow>
     (case preprocess_ocr_for_extraction ocr_first of
        Inl e \<Rightarrow> False
      | Inr preprocessed \<Rightarrow>
          x = (if preprocessed \<noteq> [] \<and> preprocessed \<noteq> ocr_first then preprocessed
               else ocr_first))"

text \<open>Step 1, the rule engine first, on the first page of a stored text.\<close>

definition cascade :: "env \<Rightarrow> ident \<Rightarrow> ustr \<Rightarrow> world \<Rightarrow> json outcome" where
  "cascade en drawing_id ocr_text w =
     (let ocr_first = first_page_ocr_text ocr_text
      in case extract_by_rules ocr_first of
           Inl e \<Rightarrow> (Inl e, w)
         | Inr rule_result \<Rightarrow>
             if has_any_items (dict_of_fields rule_result)
             then (Inr (JObj (validate_issue_date (dict_of_fields rule_result))), w)
             else generative_fallback en drawing_id ocr_first w)"

definition process_ai_extraction_for_drawing :: "env \<Rightarrow> ident \<Rightarrow> world \<Rightarrow> json outcome" where
  "process_ai_extraction_for_drawing en drawing_id w =
     (case drawings w drawing_id of
        None \<Rightarrow> (Inr (JObj []), w)
      | Some row \<Rightarrow>
          (case stored_ocr_text row of
             Inl e \<Rightarrow> (Inl e, w)
           | Inr ocr_text \<Rightarrow>
               if \<not> py_bool ocr_text then (Inr (JObj []), w)
               else (case ocr_text of
                       JStr t \<Rightarrow> cascade en drawing_id t w
                     | other \<Rightarrow> (Inl (not_str_error other), w))))"

section \<open>Persisting an extraction: \<open>_normalize_ai_result\<close>, \<open>save_extracted_fields_to_drawing\<close>\<close>

text \<open>
  \<open>_AI_KEY_TO_COLUMN\<close>, in its order: hinmei, zaishitsu, zuban, hyoumen shori, shori
  shiji, netsu shori, shutsuzubi, taitoru ("title", U+30BF U+30A4 U+30C8 U+30EB), tagu
  ("tag", U+30BF U+30B0).
\<close>

definition AI_KEY_TO_COLUMN :: "(ustr \<times> ustr) list" where
  "AI_KEY_TO_COLUMN = [(lbl_hinmei, k_part_name), (lbl_zaishitsu, k_material),
     (lbl_zuban, k_drawing_no), (lbl_hyoumen_shori, k_surface_treatment),
     (lbl_shori_shiji, k_process_note), (lbl_netsu_shori, k_process_note),
     (lbl_shutsuzubi, k_issue_date), ([12479, 12452, 12488, 12523], k_title),
     ([12479, 12464], k_tags)]"

definition column_keys :: "ustr list" where
  "column_keys = [k_title, k_drawing_no, k_part_name, k_material, k_surface_treatment,
     k_process_note, k_issue_date, k_tags]"

text \<open>The inner loop: the first alias of \<open>en_key\<close> whose value is neither None nor "".\<close>

fun alias_value :: "(ustr \<times> ustr) list \<Rightarrow> dict \<Rightarrow> ustr \<Rightarrow> json \<Rightarrow> json" where
  "alias_value [] ai_result en_key val = val"
| "alias_value ((ja_key, mapped_en) # rest) ai_result en_key val =
     (if mapped_en = en_key then
        (let v = dict_get ai_result ja_key
         in if v \<noteq> JNull \<and> v \<noteq> JStr [] then v
            else alias_value rest ai_result en_key val)
      else alias_value rest ai_result en_key val)"

definition normalized_value :: "dict \<Rightarrow> ustr \<Rightarrow> json" where
  "normalized_value ai_result en_key =
     (let val = dict_get ai_result en_key
      in if val = JNull \<or> val = JStr [] then alias_value AI_KEY_TO_COLUMN ai_result en_key val
         else val)"

fun normalize_keys :: "ustr list \<Rightarrow> dict \<Rightarrow> dict" where
  "normalize_keys [] ai_result = []"
| "normalize_keys (en_key # rest) ai_result =
     (let val = normalized_value ai_result en_key
      in if val \<noteq> JNull \<and> val \<noteq> JStr [] \<and> (en_key \<noteq> k_tags \<or> is_list val)
         then (en_key, val) # normalize_keys rest ai_result
         else normalize_keys rest ai_result)"

definition normalize_ai_result :: "dict \<Rightarrow> dict" where
  "normalize_ai_result ai_result = normalize_keys column_keys ai_result"

text \<open>The eight \<open>if normalized.get(k): update_fields[k] = normalized[k]\<close>, in order.\<close>

fun collect_fields :: "ustr list \<Rightarrow> dict \<Rightarrow> dict" where
  "collect_fields [] normalized = []"
| "collect_fields (k # rest) normalized =
     (if py_bool (dict_get normalized k) \<and> (k \<noteq> k_tags \<or> is_list (dict_get normalized k))
      then (k, dict_get normalized k) # collect_fields rest normalized
      else collect_fields rest normalized)"

definition update_fields :: "dict \<Rightarrow> dict" where
  "update_fields ai_result = collect_fields column_keys (normalize_ai_result ai_result)"

definition save_extracted_fields_to_drawing :: "ident \<Rightarrow> dict \<Rightarrow> world \<Rightarrow> world" where
  "save_extracted_fields_to_drawing drawing_id ai_result w =
     (let existing_json =
            (case drawings w drawing_id of
               None \<Rightarrow> []
             | Some row \<Rightarrow> (case extracted_json row of JObj d \<Rightarrow> d | other \<Rightarrow> []))
      in update_drawing drawing_id
           (update_fields ai_result @
              [(k_extracted_json, JObj (dict_set existing_json k_ai (JObj ai_result)))])
           w)"

section \<open>The OCR stage: \<open>process_ocr_for_drawing\<close>\<close>

text \<open>\<open>str(n)\<close> for an integer, and the page header \<open>f"[<page> {page_no}]\n"\<close>.\<close>

function str_of_nat :: "nat \<Rightarrow> ustr" where
  "str_of_nat n = (if n < 10 then [48 + n] else str_of_nat (n div 10) @ [48 + n mod 10])"
  by pat_completeness auto
termination
  by (relation "measure (\<lambda>n. n)") auto

declare str_of_nat.simps [simp del]

definition str_of_int :: "int \<Rightarrow> ustr" where
  "str_of_int i = (if i < 0 then 45 # str_of_nat (nat (- i)) else str_of_nat (nat i))"

definition page_header :: "int \<Rightarrow> ustr" where
  "page_header page_no = page_word @ [32] @ str_of_int page_no @ [93, 10]"

text \<open>\<open>sep.join(parts)\<close>\<close>

fun join :: "ustr \<Rightarrow> ustr list \<Rightarrow> ustr" where
  "join sep [] = []"
| "join sep [p] = p"
| "join sep (p # q # ps) = p @ sep @ join sep (q # ps)"

text \<open>
  The three writes of the inner \<open>try\<close>. A write that \<open>db_write_fails\<close> marks raises and
  changes nothing; the writes before it stay.
\<close>

definition update_size :: "env \<Rightarrow> ident \<Rightarrow> int \<Rightarrow> int \<Rightarrow> world \<Rightarrow> error + world" where
  "update_size en page_file_id wd ht w =
     (if db_write_fails en (Update_size page_file_id) then Inl (db_write_error en)
      else Inr (w\<lparr>files :=
             map (\<lambda>f. if file_id f = page_file_id
                       then f\<lparr>image_width := Some wd, image_height := Some ht\<rparr> else f)
               (files w)\<rparr>))"

definition delete_tokens :: "env \<Rightarrow> ident \<Rightarrow> world \<Rightarrow> error + world" where
  "delete_tokens en page_file_id w =
     (if db_write_fails en (Delete_tokens page_file_id) then Inl (db_write_error en)
      else Inr (w\<lparr>ocr_tokens := filter (\<lambda>r. row_page_file_id r \<noteq> page_file_id) (ocr_tokens w)\<rparr>))"

text \<open>\<open>for i in range(0, len(token_records), batch_size)\<close>: the batches, in order.\<close>

function batches :: "nat \<Rightarrow> 'a list \<Rightarrow> 'a list list" where
  "batches n xs = (if n = 0 \<or> xs = [] then [] else take n xs # batches n (drop n xs))"
  by pat_completeness auto
termination
  by (relation "measure (\<lambda>(n, xs). length xs)") auto

declare batches.simps [simp del]

fun insert_batches :: "env \<Rightarrow> ident \<Rightarrow> nat \<Rightarrow> token_row list list \<Rightarrow> world \<Rightarrow> error + world" where
  "insert_batches en page_file_id i [] w = Inr w"
| "insert_batches en page_file_id i (batch # rest) w =
     (if db_write_fails en (Insert_batch page_file_id i) then Inl (db_write_error en)
      else insert_batches en page_file_id (Suc i) rest (w\<lparr>ocr_tokens := ocr_tokens w @ batch\<rparr>))"

definition token_records :: "ident \<Rightarrow> ident \<Rightarrow> int \<Rightarrow> token list \<Rightarrow> token_row list" where
  "token_records drawing_id page_file_id page_no tokens =
     map (\<lambda>t. \<lparr>row_drawing_id = drawing_id, row_page_file_id = page_file_id,
               row_page_no = page_no, row_token = t\<rparr>) tokens"

text \<open>
  The inner \<open>try ... except Exception as db_err\<close>: whatever the writes raise is caught
  and logged; what is left is the state. An insertion that fails leaves the batches
  inserted before it.
\<close>

fun inserted_before_failure :: "env \<Rightarrow> ident \<Rightarrow> nat \<Rightarrow> token_row list list \<Rightarrow> world \<Rightarrow> world" where
  "inserted_before_failure en page_file_id i [] w = w"
| "inserted_before_failure en page_file_id i (batch # rest) w =
     (if db_write_fails en (Insert_batch page_file_id i) then w
      else inserted_before_failure en page_file_id (Suc i) rest (w\<lparr>ocr_tokens := ocr_tokens w @ batch\<rparr>))"

definition persist_page :: "env \<Rightarrow> ident \<Rightarrow> ident \<Rightarrow> int \<Rightarrow> ocr_output \<Rightarrow> world \<Rightarrow> world" where
  "persist_page en drawing_id page_file_id page_no out w =
     (case update_size en page_file_id (out_width out) (out_height out) w of
        Inl db_err \<Rightarrow> w
      | Inr w1 \<Rightarrow>
          (case delete_tokens en page_file_id w1 of
             Inl db_err \<Rightarrow> w1
           | Inr w2 \<Rightarrow>
               if out_tokens out = [] then w2
               else (let recs = batches 1000
                                  (token_records drawing_id page_file_id page_no (out_tokens out))
                     in case insert_batches en page_file_id 0 recs w2 of
                          Inl db_err \<Rightarrow> inserted_before_failure en page_file_id 0 recs w2
                        | Inr w3 \<Rightarrow> w3)))"

text \<open>
  One iteration of \<open>for page_file in page_images.data\<close>. The accumulator is \<open>pages\<close>,
  \<open>all_texts\<close> and the state. \<open>page_file.get("page_no") or 0\<close> is 0 for a missing number.
\<close>

definition page_no_of :: "drawing_file \<Rightarrow> int" where
  "page_no_of f = (case file_page_no f of None \<Rightarrow> 0 | Some n \<Rightarrow> n)"

definition ocr_page ::
  "env \<Rightarrow> ident \<Rightarrow> (int \<times> ustr) list \<times> ustr list \<times> world \<Rightarrow> drawing_file \<Rightarrow>
     (int \<times> ustr) list \<times> ustr list \<times> world" where
  "ocr_page en drawing_id acc page_file =
     (case acc of (pages, all_texts, w) \<Rightarrow>
       (let page_no = page_no_of page_file;
            gcs_path = file_gcs_path page_file;
            w1 = record_call (Download gcs_path) w
        in case download en gcs_path of
             Inl e \<Rightarrow> (pages @ [(page_no, [])], all_texts, w1)
           | Inr image_bytes \<Rightarrow>
               (let w2 = record_call (Ocr_engine image_bytes) w1
                in case ocr_engine en image_bytes of
                     Inl e \<Rightarrow> (pages @ [(page_no, [])], all_texts, w2)
                   | Inr out \<Rightarrow>
                       (pages @ [(page_no, out_text out)],
                        (if out_text out \<noteq> [] then all_texts @ [page_header page_no @ out_text out]
                         else all_texts),
                        persist_page en drawing_id (file_id page_file) page_no out w2))))"

definition process_ocr_for_drawing ::
  "env \<Rightarrow> ident \<Rightarrow> world \<Rightarrow> (ustr \<times> (int \<times> ustr) list) \<times> world" where
  "process_ocr_for_drawing en drawing_id w =
     (let page_images = order_by_page_no (files_of w drawing_id Page_image)
      in if page_images = [] then (([], []), w)
         else case foldl (ocr_page en drawing_id) ([], [], w) page_images of
                (pages, all_texts, w') \<Rightarrow> ((join [10, 10] all_texts, pages), w'))"

text \<open>The result as the dictionary \<open>{"ocr_text": ..., "pages": [...]}\<close>.\<close>

definition json_of_ocr :: "ustr \<times> (int \<times> ustr) list \<Rightarrow> json" where
  "json_of_ocr res =
     JObj [(k_ocr_text, JStr (fst res)),
           (k_pages, JList (map (\<lambda>(n, t). JObj [(k_page_no, JInt n), (k_text, JStr t)]) (snd res)))]"

text \<open>
  What the specification expects of one page, from the collaborators alone: its text
  (empty when the download or the OCR call fails), its entry in the page list, and its
  block in the concatenated text.
\<close>

definition page_text :: "env \<Rightarrow> drawing_file \<Rightarrow> ustr" where
  "page_text en f =
     (case download en (file_gcs_path f) of
        Inl e \<Rightarrow> []
      | Inr b \<Rightarrow> (case ocr_engine en b of Inl e \<Rightarrow> [] | Inr out \<Rightarrow> out_text out))"

definition page_entry :: "env \<Rightarrow> drawing_file \<Rightarrow> int \<times> ustr" where
  "page_entry en f = (page_no_of f, page_text en f)"

definition page_block :: "int \<times> ustr \<Rightarrow> ustr" where
  "page_block p = page_header (fst p) @ snd p"

section \<open>The vector stage: \<open>vectorizer.py\<close>\<close>

text \<open>
  \<open>_build_search_text\<close>. \<open>x.get(k) or dflt\<close> replaces a false value by the default.
  A stored OCR text that is true but not a string makes \<open>"\n".join(parts)\<close> raise
  TypeError, after the \<open>ai\<close> part has been read.
\<close>

definition or_default :: "json \<Rightarrow> json \<Rightarrow> json" where
  "or_default v dflt = (if py_bool v then v else dflt)"

fun str_field :: "json \<Rightarrow> ustr list" where
  "str_field (JStr s) = (if s \<noteq> [] then [s] else [])"
| "str_field v = []"

definition search_keys :: "ustr list" where
  "search_keys = [k_title, k_drawing_no, k_part_name, k_material, k_surface_treatment, k_process_note]"

fun ai_parts :: "json \<Rightarrow> ustr list \<Rightarrow> error + ustr list" where
  "ai_parts ai [] = Inr []"
| "ai_parts ai (key # keys) =
     (case obj_get ai key JNull of
        Inl e \<Rightarrow> Inl e
      | Inr val \<Rightarrow>
          (case ai_parts ai keys of Inl e \<Rightarrow> Inl e | Inr rest \<Rightarrow> Inr (str_field val @ rest)))"

definition tag_str :: "env \<Rightarrow> json \<Rightarrow> ustr" where
  "tag_str en t = (case t of JStr s \<Rightarrow> s | other \<Rightarrow> py_str en other)"

definition tags_part :: "env \<Rightarrow> json \<Rightarrow> ustr list" where
  "tags_part en tag_value =
     (case tag_value of
        JList ts \<Rightarrow> (if ts \<noteq> [] then [join [32] (map (tag_str en) ts)] else [])
      | other \<Rightarrow> [])"

definition join_type_msg :: ustr where \<comment> \<open>"expected str instance"\<close>
  "join_type_msg = [101, 120, 112, 101, 99, 116, 101, 100, 32, 115, 116, 114, 32, 105, 110,
     115, 116, 97, 110, 99, 101]"

definition build_search_text :: "env \<Rightarrow> dict \<Rightarrow> error + ustr" where
  "build_search_text en ej =
     (case obj_get (or_default (dict_get ej k_ocr) (JObj [])) k_ocr_text JNull of
        Inl e \<Rightarrow> Inl e
      | Inr t \<Rightarrow>
          (let ocr_text = or_default t (JStr []);
               ai = or_default (dict_get ej k_ai) (JObj [])
           in case ai_parts ai search_keys of
                Inl e \<Rightarrow> Inl e
              | Inr fields_part \<Rightarrow>
                  (case obj_get ai k_tags JNull of
                     Inl e \<Rightarrow> Inl e
                   | Inr tag_value \<Rightarrow>
                       (case ocr_text of
                          JStr s \<Rightarrow>
                            Inr (take 8000 (strip (join [10]
                                   ((if s \<noteq> [] then [s] else []) @ fields_part @ tags_part en tag_value))))
                        | other \<Rightarrow> Inl (Exc TypeError join_type_msg)))))"

text \<open>\<open>_get_embedding\<close>: None for a blank text, else what the embedding model gives.\<close>

definition get_embedding :: "env \<Rightarrow> ustr \<Rightarrow> world \<Rightarrow> int list option \<times> world" where
  "get_embedding en text w =
     (if strip text = [] then (None, w) else (embed en text, record_call (Embed text) w))"

text \<open>
  \<open>vectorize_and_upsert\<close>: the upsert is inside \<open>try ... except: ... raise\<close>, so its
  exception leaves the function.
\<close>

definition vectorize_and_upsert :: "env \<Rightarrow> ident \<Rightarrow> ustr \<Rightarrow> dict \<Rightarrow> world \<Rightarrow> unit outcome" where
  "vectorize_and_upsert en drawing_id company ej w =
     (if \<not> pinecone_configured en then (Inr (), w)
      else case build_search_text en ej of
             Inl e \<Rightarrow> (Inl e, w)
           | Inr search_text \<Rightarrow>
               if search_text = [] then (Inr (), w)
               else case get_embedding en search_text w of
                      (None, w1) \<Rightarrow> (Inr (), w1)
                    | (Some vec, w1) \<Rightarrow>
                        if vec = [] then (Inr (), w1)
                        else case upsert en drawing_id vec of
                               Inl e \<Rightarrow> (Inl e, record_call (Upsert drawing_id) w1)
                             | Inr u \<Rightarrow> (Inr (), record_call (Upsert drawing_id) w1))"

definition vectorize_drawing_for_search :: "env \<Rightarrow> ident \<Rightarrow> world \<Rightarrow> unit outcome" where
  "vectorize_drawing_for_search en drawing_id w =
     (if \<not> pinecone_configured en then (Inr (), w)
      else case drawings w drawing_id of
             None \<Rightarrow> (Inr (), w)
           | Some row \<Rightarrow>
               (let ej = (case or_default (extracted_json row) (JObj []) of
                            JObj d \<Rightarrow> d | other \<Rightarrow> [])
                in if company_id row = [] then (Inr (), w)
                   else vectorize_and_upsert en drawing_id (company_id row) ej w))"

section \<open>The stage runner and the job queue: \<open>job_processor.py\<close>\<close>

text \<open>
  \<open>_fetch_one_queued_job\<close>: the queued job with the least \<open>created_at\<close>, the first
  stored among equals; None without a configured store.
\<close>

fun oldest :: "job list \<Rightarrow> job option" where
  "oldest [] = None"
| "oldest (j # js) =
     (case oldest js of
        None \<Rightarrow> Some j
      | Some k \<Rightarrow> if created_at j \<le> created_at k then Some j else Some k)"

definition fetch_one_queued_job :: "env \<Rightarrow> world \<Rightarrow> job option" where
  "fetch_one_queued_job en w =
     (if \<not> supabase_configured en then None
      else oldest (filter (\<lambda>j. job_status j = Queued) (jobs w)))"

text \<open>
  \<open>_update_job\<close>: the status always, the other columns only when the argument is not
  None.
\<close>

definition keep :: "'a option \<Rightarrow> 'a option \<Rightarrow> 'a option" where
  "keep new old = (case new of None \<Rightarrow> old | Some v \<Rightarrow> Some v)"

definition update_job ::
  "env \<Rightarrow> ident \<Rightarrow> job_status \<Rightarrow> ustr option \<Rightarrow> ustr option \<Rightarrow> nat option \<Rightarrow> nat option \<Rightarrow>
     world \<Rightarrow> world" where
  "update_job en jid st step err started finished w =
     (if \<not> supabase_configured en then w
      else w\<lparr>jobs :=
             map (\<lambda>j. if job_id j = jid
                       then j\<lparr>job_status := st, job_step := keep step (job_step j),
                              error_message := keep err (error_message j),
                              started_at := keep started (started_at j),
                              finished_at := keep finished (finished_at j)\<rparr>
                       else j)
               (jobs w)\<rparr>)"

definition str_processing :: ustr where \<comment> \<open>"processing"\<close>
  "str_processing = [112, 114, 111, 99, 101, 115, 115, 105, 110, 103]"

definition str_convert :: ustr where \<comment> \<open>"convert"\<close>
  "str_convert = [99, 111, 110, 118, 101, 114, 116]"

definition mime_pdf :: ustr where \<comment> \<open>"application/pdf"\<close>
  "mime_pdf = [97, 112, 112, 108, 105, 99, 97, 116, 105, 111, 110, 47, 112, 100, 102]"

definition set_processing :: "ident \<Rightarrow> world \<Rightarrow> world" where
  "set_processing drawing_id w =
     (case drawings w drawing_id of
        None \<Rightarrow> w
      | Some row \<Rightarrow> w\<lparr>drawings := (drawings w)(drawing_id \<mapsto> row\<lparr>drawing_status := str_processing\<rparr>)\<rparr>)"

text \<open>
  Stage (a). The result says whether the later stages run: an exception of
  \<open>process_pdf\<close> leaves \<open>process_drawing_job\<close>; without a PDF and without a page image
  the function returns.
\<close>

definition rasterize_stage :: "env \<Rightarrow> ident \<Rightarrow> world \<Rightarrow> bool outcome" where
  "rasterize_stage en drawing_id w =
     (case filter (\<lambda>f. file_mime f = mime_pdf) (files_of w drawing_id Original) of
        pdf_file # others \<Rightarrow>
          (case process_pdf en drawing_id (file_gcs_path pdf_file)
                  (record_call (Run_stage Rasterize) w) of
             (Some e, w') \<Rightarrow> (Inl e, w')
           | (None, w') \<Rightarrow> (Inr True, w'))
      | [] \<Rightarrow>
          (if files_of w drawing_id Page_image \<noteq> [] then (Inr True, w) else (Inr False, w)))"

text \<open>
  Stages (b) to (e), each a \<open>try ... except Exception\<close> that logs and goes on: what is
  left of a stage is the state.
\<close>

definition ocr_stage :: "env \<Rightarrow> ident \<Rightarrow> world \<Rightarrow> world" where
  "ocr_stage en drawing_id w =
     (case process_ocr_for_drawing en drawing_id (record_call (Run_stage Ocr) w) of
        (ocr_result, w1) \<Rightarrow>
          if fst ocr_result \<noteq> [] \<or> snd ocr_result \<noteq> [] then
            (let existing_json =
                   (case drawings w1 drawing_id of
                      None \<Rightarrow> []
                    | Some row \<Rightarrow> (case extracted_json row of JObj d \<Rightarrow> d | other \<Rightarrow> []))
             in update_drawing drawing_id
                  [(k_extracted_json, JObj (dict_set existing_json k_ocr (json_of_ocr ocr_result)))]
                  w1)
          else w1)"

definition extract_stage :: "env \<Rightarrow> ident \<Rightarrow> world \<Rightarrow> world" where
  "extract_stage en drawing_id w =
     (case process_ai_extraction_for_drawing en drawing_id (record_call (Run_stage Extract) w) of
        (Inl e, w1) \<Rightarrow> w1
      | (Inr ai_result, w1) \<Rightarrow>
          if py_bool ai_result then
            (case ai_result of
               JObj d \<Rightarrow> save_extracted_fields_to_drawing drawing_id d w1
             | other \<Rightarrow> w1)
          else w1)"

definition vectorize_stage :: "env \<Rightarrow> ident \<Rightarrow> world \<Rightarrow> world" where
  "vectorize_stage en drawing_id w =
     snd (vectorize_drawing_for_search en drawing_id (record_call (Run_stage Vectorize) w))"

definition process_drawing_job :: "env \<Rightarrow> ident \<Rightarrow> world \<Rightarrow> unit outcome" where
  "process_drawing_job en drawing_id w =
     (if \<not> supabase_configured en then (Inr (), w)
      else case rasterize_stage en drawing_id (set_processing drawing_id w) of
             (Inl e, w1) \<Rightarrow> (Inl e, w1)
           | (Inr False, w1) \<Rightarrow> (Inr (), w1)
           | (Inr True, w1) \<Rightarrow>
               (Inr (), vectorize_stage en drawing_id
                          (extract_stage en drawing_id (ocr_stage en drawing_id w1))))"

text \<open>\<open>_run_one_cycle\<close>; \<open>datetime.now\<close> reads the clock of the state.\<close>

definition run_one_cycle :: "env \<Rightarrow> world \<Rightarrow> world" where
  "run_one_cycle en w =
     (case fetch_one_queued_job en w of
        None \<Rightarrow> w
      | Some job \<Rightarrow>
          (case process_drawing_job en (job_drawing_id job)
                  (update_job en (job_id job) Running (Some str_convert) None (Some (clock w)) None w) of
             (Inr u, w1) \<Rightarrow>
               update_job en (job_id job) Success None None None (Some (clock w1)) w1
           | (Inl e, w1) \<Rightarrow>
               update_job en (job_id job) Error None (Some (message e)) None (Some (clock w1)) w1))"

section \<open>Inputs of the scenarios\<close>

text \<open>
  The base-plate title block of the specification: the lines meishou, beesupureeto
  ("base plate"), zaishitsu, netsu shori, SS400, hyoumen shori, kurozome, zuban,
  2509-0017, hinmei, beesupureeto; \<open>baseplate_text\<close> joins them with line feeds.
\<close>

definition str_baseplate :: ustr where
  "str_baseplate = [12505, 12540, 12473, 12503, 12524, 12540, 12488]"

definition str_ss400 :: ustr where
  "str_ss400 = [83, 83, 52, 48, 48]"

definition str_kurozome :: ustr where
  "str_kurozome = [40658, 26579, 12417]"

definition str_2509_0017 :: ustr where
  "str_2509_0017 = [50, 53, 48, 57, 45, 48, 48, 49, 55]"

definition baseplate_lines :: "ustr list" where
  "baseplate_lines = [lbl_meishou, str_baseplate, lbl_zaishitsu, lbl_netsu_shori, str_ss400,
     lbl_hyoumen_shori, str_kurozome, lbl_zuban, str_2509_0017, lbl_hinmei, str_baseplate]"

definition baseplate_text :: ustr where
  "baseplate_text = [21517, 31216, 10, 12505, 12540, 12473, 12503, 12524, 12540, 12488, 10,
     26448, 36074, 10, 29105, 20966, 29702, 10, 83, 83, 52, 48, 48, 10, 34920, 38754, 20966,
     29702, 10, 40658, 26579, 12417, 10, 22259, 30058, 10, 50, 53, 48, 57, 45, 48, 48, 49,
     55, 10, 21697, 21517, 10, 12505, 12540, 12473, 12503, 12524, 12540, 12488]"

text \<open>
  A text whose label zuban is followed by "X-1" and whose last line is "No 2509-0017":
  the scan takes "X-1", the search finds the drawing number.
\<close>

definition fallback_text :: ustr where
  "fallback_text = [22259, 30058, 10, 88, 45, 49, 10, 78, 111, 32, 50, 53, 48, 57, 45, 48, 48, 49, 55]"

text \<open>
  A text whose label zuban is followed by "2509-0017A", a drawing number with a revision
  letter, and whose last line is "No 1111-2222".
\<close>

definition suffix_text :: ustr where
  "suffix_text = [22259, 30058, 10, 50, 53, 48, 57, 45, 48, 48, 49, 55, 65, 10,
     78, 111, 32, 49, 49, 49, 49, 45, 50, 50, 50, 50]"

text \<open>
  Two multi-page texts: \<open>two_page_text\<close> is "[<page> 1]", line feed, "A", two line
  feeds, "[<page> 2]", line feed, "B"; \<open>unordered_text\<close> is "A[<page> 3]B[<page> 2]C",
  where the marker of page 3 stands before the marker of page 2.
\<close>

definition two_page_text :: ustr where
  "two_page_text = [91, 12506, 12540, 12472, 32, 49, 93, 10, 65, 10, 10,
     91, 12506, 12540, 12472, 32, 50, 93, 10, 66]"

definition unordered_text :: ustr where
  "unordered_text = [65, 91, 12506, 12540, 12472, 32, 51, 93, 66,
     91, 12506, 12540, 12472, 32, 50, 93, 67]"

text \<open>
  A store and collaborators for the scenarios. \<open>failing_env\<close> has every collaborator
  raise (or return nothing), so a result obtained with it does not come from a
  collaborator. \<open>boom\<close> is the exception they raise, with the message "boom". The
  drawing "d" of company "c" has the base-plate text as its stored OCR text.
\<close>

definition boom :: error where
  "boom = Exc Service [98, 111, 111, 109]"

definition failing_env :: env where
  "failing_env = \<lparr>supabase_configured = True, pinecone_configured = True,
     download = (\<lambda>p. Inl boom), ocr_engine = (\<lambda>b. Inl boom),
     db_write_fails = (\<lambda>op. True), db_write_error = boom,
     multimodal = (\<lambda>b t m. Inl boom), text_only = (\<lambda>t. Inl boom),
     embed = (\<lambda>t. None), upsert = (\<lambda>i v. Inl boom),
     process_pdf = (\<lambda>d p w. (Some boom, w)), py_str = (\<lambda>v. [])\<rparr>"

definition baseplate_drawing :: drawing where
  "baseplate_drawing = \<lparr>drawing_status = [], company_id = [99],
     extracted_json = JObj [(k_ocr, JObj [(k_ocr_text, JStr baseplate_text), (k_pages, JList [])])],
     columns = Map.empty\<rparr>"

definition baseplate_world :: world where
  "baseplate_world = \<lparr>jobs = [], drawings = [ [100] \<mapsto> baseplate_drawing], files = [],
     ocr_tokens = [], calls = [], clock = 0\<rparr>"

text \<open>
  An extraction with an empty title, a material, a part name under its Japanese key
  hinmei, no drawing number and no tags; and the store in which the drawing "d" already
  has the title "old" and the drawing number "0001-0001".
\<close>

definition sample_ai_result :: dict where
  "sample_ai_result = [(k_title, JStr []), (k_material, JStr str_ss400),
     (lbl_hinmei, JStr str_baseplate), (k_drawing_no, JNull), (k_tags, JList [])]"

definition titled_world :: world where
  "titled_world = baseplate_world\<lparr>drawings :=
     [ [100] \<mapsto> baseplate_drawing\<lparr>columns :=
        [k_title \<mapsto> JStr [111, 108, 100],
         k_drawing_no \<mapsto> JStr [48, 48, 48, 49, 45, 48, 48, 48, 49] ]\<rparr>]\<rparr>"

text \<open>
  A drawing whose stored OCR text is "abc" (no label, no drawing number) and has no page
  image; and collaborators whose text-only extraction answers with the single key
  shutsuzubi (the Japanese key of the issue date) and the value "2024/01/01".
\<close>

definition slash_date :: ustr where
  "slash_date = [50, 48, 50, 52, 47, 48, 49, 47, 48, 49]"

definition plain_world :: world where
  "plain_world = baseplate_world\<lparr>drawings :=
     [ [100] \<mapsto> baseplate_drawing\<lparr>extracted_json :=
        JObj [(k_ocr, JObj [(k_ocr_text, JStr [97, 98, 99]), (k_pages, JList [])])]\<rparr>]\<rparr>"

definition alias_env :: env where
  "alias_env = failing_env\<lparr>text_only := (\<lambda>t. Inr (JObj [(lbl_shutsuzubi, JStr slash_date)]))\<rparr>"

text \<open>
  The drawing "d" with the two-page text as its stored OCR text, and with a two-page text
  whose markers are those of the pages 6 and 7; no page image. The text-only model of
  \<open>echo_env\<close> answers with the text it was given, as the title.
\<close>

definition other_pages_text :: ustr where
  "other_pages_text = [91, 12506, 12540, 12472, 32, 54, 93, 10, 65, 10, 10,
     91, 12506, 12540, 12472, 32, 55, 93, 10, 66]"

definition two_page_drawing :: drawing where
  "two_page_drawing = baseplate_drawing\<lparr>extracted_json :=
     JObj [(k_ocr, JObj [(k_ocr_text, JStr two_page_text), (k_pages, JList [])])]\<rparr>"

definition two_page_world :: world where
  "two_page_world = baseplate_world\<lparr>drawings := [ [100] \<mapsto> two_page_drawing]\<rparr>"

definition other_pages_drawing :: drawing where
  "other_pages_drawing = baseplate_drawing\<lparr>extracted_json :=
     JObj [(k_ocr, JObj [(k_ocr_text, JStr other_pages_text), (k_pages, JList [])])]\<rparr>"

definition other_pages_world :: world where
  "other_pages_world = baseplate_world\<lparr>drawings := [ [100] \<mapsto> other_pages_drawing]\<rparr>"

definition echo_env :: env where
  "echo_env = failing_env\<lparr>text_only := (\<lambda>t. Inr (JObj [(k_title, JStr t)]))\<rparr>"

text \<open>
  Two page images of the drawing "d": page 1 at path "p" and page 2 at path "q". The
  download of "q" fails; the OCR of page 1 reads "A" and one word; every write of the
  OCR stage to the database fails.
\<close>

definition word_a :: token where
  "word_a = \<lparr>tok_text = [65], tok_box = (0, 0, 5, 5), tok_confidence = Some 1, tok_level = [119]\<rparr>"

definition two_page_files :: "drawing_file list" where
  "two_page_files =
     [\<lparr>file_id = [50], file_drawing_id = [100], file_type = Page_image, file_mime = [],
        file_page_no = Some 2, file_gcs_path = [113], image_width = None, image_height = None\<rparr>,
      \<lparr>file_id = [49], file_drawing_id = [100], file_type = Page_image, file_mime = [],
        file_page_no = Some 1, file_gcs_path = [112], image_width = None, image_height = None\<rparr>]"

definition ocr_world :: world where
  "ocr_world = baseplate_world\<lparr>files := two_page_files\<rparr>"

definition ocr_env :: env where
  "ocr_env = failing_env\<lparr>
     download := (\<lambda>p. if p = [112] then Inr [1] else Inl boom),
     ocr_engine := (\<lambda>b. Inr \<lparr>out_text = [65], out_tokens = [word_a], out_width = 10, out_height = 20\<rparr>)\<rparr>"

text \<open>
  One job of the queue, for the drawing "d" with one page image at path "p". The blob
  store and the OCR engine answer (the page reads "2509-0017"), the database accepts every
  write, the embedding model gives a vector, and the vector index raises "boom" at every
  upsert. \<open>running_world\<close>, \<open>after_ocr_world\<close> and \<open>after_extract_world\<close> are the states
  the cycle passes through. \<open>idle_world\<close> has the job and the drawing, but no file.
\<close>

definition queued_job :: job where
  "queued_job = \<lparr>job_id = [106], job_drawing_id = [100], job_status = Queued, job_step = None,
     error_message = None, started_at = None, finished_at = None, created_at = 0\<rparr>"

definition page_one :: drawing_file where
  "page_one = \<lparr>file_id = [49], file_drawing_id = [100], file_type = Page_image, file_mime = [],
     file_page_no = Some 1, file_gcs_path = [112], image_width = None, image_height = None\<rparr>"

definition queued_world :: world where
  "queued_world = \<lparr>jobs = [queued_job],
     drawings = [ [100] \<mapsto> \<lparr>drawing_status = [], company_id = [99], extracted_json = JNull,
                    columns = Map.empty\<rparr>],
     files = [page_one], ocr_tokens = [], calls = [], clock = 7\<rparr>"

definition upsert_fails_env :: env where
  "upsert_fails_env = \<lparr>supabase_configured = True, pinecone_configured = True,
     download = (\<lambda>p. Inr [1]),
     ocr_engine = (\<lambda>b. Inr \<lparr>out_text = str_2509_0017, out_tokens = [], out_width = 10, out_height = 20\<rparr>),
     db_write_fails = (\<lambda>op. False), db_write_error = boom,
     multimodal = (\<lambda>b t m. Inl boom), text_only = (\<lambda>t. Inl boom),
     embed = (\<lambda>t. Some [1]), upsert = (\<lambda>i v. Inl boom),
     process_pdf = (\<lambda>d p w. (Some boom, w)), py_str = (\<lambda>v. [])\<rparr>"

definition page_one_text :: ustr where
  "page_one_text = [91, 12506, 12540, 12472, 32, 49, 93, 10, 50, 53, 48, 57, 45, 48, 48, 49, 55]"

definition ocr_document :: json where
  "ocr_document = JObj [(k_ocr_text, JStr page_one_text),
     (k_pages, JList [JObj [(k_page_no, JInt 1), (k_text, JStr str_2509_0017)] ])]"

definition ai_document :: dict where
  "ai_document = [(k_title, JNull), (k_drawing_no, JStr str_2509_0017), (k_part_name, JNull),
     (k_material, JNull), (k_surface_treatment, JNull), (k_process_note, JNull),
     (k_issue_date, JNull), (k_tags, JList [])]"

definition running_world :: world where
  "running_world = \<lparr>jobs = [queued_job\<lparr>job_status := Running, job_step := Some str_convert,
        started_at := Some 7\<rparr>],
     drawings = [ [100] \<mapsto> \<lparr>drawing_status = str_processing, company_id = [99],
                    extracted_json = JNull, columns = Map.empty\<rparr>],
     files = [page_one], ocr_tokens = [], calls = [], clock = 7\<rparr>"

definition after_ocr_world :: world where
  "after_ocr_world = running_world\<lparr>
     drawings := [ [100] \<mapsto> \<lparr>drawing_status = str_processing, company_id = [99],
                    extracted_json = JObj [(k_ocr, ocr_document)], columns = Map.empty\<rparr>],
     files := [page_one\<lparr>image_width := Some 10, image_height := Some 20\<rparr>],
     calls := [Run_stage Ocr, Download [112], Ocr_engine [1] ]\<rparr>"

definition after_extract_world :: world where
  "after_extract_world = after_ocr_world\<lparr>
     drawings := [ [100] \<mapsto> \<lparr>drawing_status = str_processing, company_id = [99],
                    extracted_json = JObj [(k_ocr, ocr_document), (k_ai, JObj ai_document)],
                    columns = [k_drawing_no \<mapsto> JStr str_2509_0017]\<rparr>],
     calls := [Run_stage Ocr, Download [112], Ocr_engine [1], Run_stage Extract]\<rparr>"

definition idle_world :: world where
  "idle_world = baseplate_world\<lparr>jobs := [queued_job]\<rparr>"

section \<open>Basic facts\<close>

lemmas label_defs = lbl_meishou_def lbl_hinmei_def lbl_zaishitsu_def lbl_hyoumen_shori_def
  lbl_zuban_def lbl_netsu_shori_def lbl_shori_shiji_def lbl_youshi_def lbl_shakudo_def
  lbl_sakuseisha_def lbl_kakuninsha_def lbl_shouninsha_def lbl_buhinzu_def
  lbl_kumitatezu_def lbl_shutsuzubi_def

subsection \<open>Digits and whitespace\<close>

lemma nd_zero_gaps:
  "\<forall>z \<in> set nd_zero. 48 \<le> z \<and> (z + 9 < 133 \<or> 160 < z) \<and> (z + 9 < 5760 \<or> 5760 < z) \<and>
     (z + 9 < 8192 \<or> 12288 < z)"
  by (simp add: nd_zero_def)

lemma nd_zero_low: "\<forall>z \<in> set nd_zero. z = 48 \<or> 1632 \<le> z"
  by (simp add: nd_zero_def)

lemma nd_zero_mid: "\<forall>z \<in> set nd_zero. z + 9 < 7258 \<or> 42528 \<le> z"
  by (simp add: nd_zero_def)

lemma isdigit_low: "c < 1632 \<Longrightarrow> isdigit c \<longleftrightarrow> 48 \<le> c \<and> c \<le> 57"
  using nd_zero_low by (fastforce simp add: isdigit_def list_ex_iff)

lemma isdigit_mid: "7258 \<le> c \<Longrightarrow> c < 42528 \<Longrightarrow> \<not> isdigit c"
  using nd_zero_mid by (fastforce simp add: isdigit_def list_ex_iff)

lemma isdigit_not_isspace: "isdigit c \<Longrightarrow> \<not> isspace c"
  using nd_zero_gaps by (fastforce simp add: isdigit_def list_ex_iff isspace_def)

subsection \<open>Collections of defining equations, for evaluation\<close>

lemmas scenario_defs = str_baseplate_def str_ss400_def str_kurozome_def str_2509_0017_def
  baseplate_lines_def baseplate_text_def

lemmas key_defs = k_title_def k_drawing_no_def k_part_name_def k_material_def
  k_surface_treatment_def k_process_note_def k_issue_date_def k_tags_def k_ocr_def k_ai_def
  k_ocr_text_def k_pages_def k_page_no_def k_text_def k_extracted_json_def

lemmas rule_eval = rule_step_def KNOWN_LABELS_def LABEL_TO_KEY_def label_defs
  value_next_def value_prev_def value_first_non_label.simps subscript_def choose_value_def
  normalize_value_def reject_value_def store_value_def SURFACE_OR_MATERIAL_TERMS_def
  NON_DRAWING_NO_TERMS_def strip_def isspace_def lstrip_chars_def page_sep_match_def
  startswith_def page_word_def drawing_no_match_def isdigit_low isdigit_mid

subsection \<open>Lines\<close>

lemma islinebreak_isspace: "islinebreak c \<Longrightarrow> isspace c"
  by (auto simp add: islinebreak_def isspace_def)

lemma strip_empty_iff: "strip s = [] \<longleftrightarrow> (\<forall>c \<in> set s. isspace c)"
proof
  assume "strip s = []"
  then have a: "\<forall>c \<in> set (dropWhile isspace s). isspace c"
    by (simp add: strip_def dropWhile_eq_Nil_conv)
  have "dropWhile isspace s = []"
  proof (rule ccontr)
    assume n: "dropWhile isspace s \<noteq> []"
    then have "\<not> isspace (hd (dropWhile isspace s))" by (rule hd_dropWhile)
    moreover have "hd (dropWhile isspace s) \<in> set (dropWhile isspace s)" using n by simp
    ultimately show False using a by blast
  qed
  then show "\<forall>c \<in> set s. isspace c"
    by (simp add: dropWhile_eq_Nil_conv)
next
  assume "\<forall>c \<in> set s. isspace c"
  then have "dropWhile isspace s = []"
    by (simp add: dropWhile_eq_Nil_conv)
  then show "strip s = []"
    by (simp only: strip_def rev.simps dropWhile.simps)
qed

lemma splitlines_from_chars:
  "l \<in> set (splitlines_from cur s) \<Longrightarrow> set l \<subseteq> set cur \<union> set s"
  by (induction cur s arbitrary: l rule: splitlines_from.induct) (auto split: if_splits)

lemma splitlines_from_covers:
  "c \<in> set cur \<union> set s \<Longrightarrow> \<not> isspace c \<Longrightarrow> \<exists>l \<in> set (splitlines_from cur s). c \<in> set l"
proof (induction cur s rule: splitlines_from.induct)
  case (1 cur)
  then show ?case by auto
next
  case (2 cur c')
  then show ?case using islinebreak_isspace by auto
next
  case (3 cur c' d ds)
  have sp: "isspace 10" "isspace 13" by (simp_all add: isspace_def)
  show ?case
  proof (cases "c' = 13 \<and> d = 10")
    case True
    with 3 sp show ?thesis by auto
  next
    case False
    with 3 show ?thesis using islinebreak_isspace by (cases "islinebreak c'") auto
  qed
qed

lemma text_lines_empty_iff: "text_lines t = [] \<longleftrightarrow> (\<forall>c \<in> set t. isspace c)"
proof
  assume e: "text_lines t = []"
  show "\<forall>c \<in> set t. isspace c"
  proof (rule ccontr)
    assume "\<not> (\<forall>c \<in> set t. isspace c)"
    then obtain c where c: "c \<in> set t" "\<not> isspace c" by blast
    then obtain l where l: "l \<in> set (splitlines t)" "c \<in> set l"
      using splitlines_from_covers [of c "[]" t] by (auto simp add: splitlines_def)
    then have "strip l \<noteq> []" using c by (auto simp add: strip_empty_iff)
    then have "strip l \<in> set (text_lines t)" using l by (simp add: text_lines_def)
    then show False using e by simp
  qed
next
  assume a: "\<forall>c \<in> set t. isspace c"
  have "\<forall>l \<in> set (splitlines t). strip l = []"
    using splitlines_from_chars [of _ "[]" t] a by (fastforce simp add: strip_empty_iff splitlines_def)
  then show "text_lines t = []"
    by (simp add: text_lines_def filter_empty_conv)
qed

subsection \<open>The rule engine raises nothing\<close>

lemma subscript_in_range: "0 \<le> i \<Longrightarrow> i < int (length xs) \<Longrightarrow> subscript xs i = Inr (xs ! nat i)"
  by (simp add: subscript_def)

lemma value_next_total: "0 \<le> i \<Longrightarrow> \<exists>v. value_next lines i = Inr v"
  by (simp add: value_next_def subscript_in_range)

lemma value_prev_total: "i < int (length lines) \<Longrightarrow> \<exists>v. value_prev lines i = Inr v"
  by (simp add: value_prev_def subscript_in_range)

lemma value_first_non_label_total: "0 \<le> j \<Longrightarrow> \<exists>v. value_first_non_label lines j = Inr v"
proof (induction lines j rule: value_first_non_label.induct)
  case (1 lines j)
  show ?case
  proof (cases "j < int (length lines)")
    case True
    with 1 show ?thesis
      by (subst value_first_non_label.simps) (simp add: subscript_in_range)
  next
    case False
    then show ?thesis
      by (subst value_first_non_label.simps) simp
  qed
qed

lemma rule_step_total: "i < length lines \<Longrightarrow> \<exists>r'. rule_step lines i line r = Inr r'"
proof -
  assume i: "i < length lines"
  obtain vn where vn: "value_next lines (int i) = Inr vn"
    using value_next_total [of "int i" lines] by auto
  obtain vp where vp: "value_prev lines (int i) = Inr vp"
    using value_prev_total [of "int i" lines] i by auto
  obtain vf where vf: "value_first_non_label lines (int i + 1) = Inr vf"
    using value_first_non_label_total [of "int i + 1" lines] by auto
  show ?thesis
    by (simp add: rule_step_def vn vp vf split: option.split)
qed

lemma scan_lines_total:
  "\<forall>(i, l) \<in> set es. i < length lines \<Longrightarrow> \<exists>r'. scan_lines lines es r = Inr r'"
proof (induction es arbitrary: r)
  case Nil
  then show ?case by simp
next
  case (Cons e es)
  obtain i l where e: "e = (i, l)" by (cases e)
  with Cons.prems have "i < length lines" by simp
  then obtain r1 where "rule_step lines i l r = Inr r1"
    using rule_step_total by blast
  moreover from Cons.prems have "\<forall>(i, l) \<in> set es. i < length lines" by simp
  ultimately show ?case using Cons.IH [of r1] e by simp
qed

lemma scan_enumerate_total: "\<exists>r'. scan_lines lines (enumerate 0 lines) r = Inr r'"
  by (rule scan_lines_total) (auto simp add: in_set_enumerate_eq)

lemma extract_by_rules_total: "\<exists>r. extract_by_rules t = Inr r"
proof -
  obtain r where "scan_lines (text_lines t) (enumerate 0 (text_lines t)) empty_fields = Inr r"
    using scan_enumerate_total by blast
  then show ?thesis
    by (simp add: extract_by_rules_def Let_def)
qed

subsection \<open>The search for a drawing number\<close>

lemma drawing_no_match_take: "drawing_no_match s \<Longrightarrow> drawing_no_match (take 9 s) \<and> length (take 9 s) = 9"
  by (simp add: drawing_no_match_def min_def take_drop)

lemma drawing_no_match_digit: "drawing_no_match s \<Longrightarrow> \<exists>d \<in> set s. isdigit d"
proof -
  assume m: "drawing_no_match s"
  then obtain a rest where s: "s = a # rest"
    by (cases s) (auto simp add: drawing_no_match_def)
  with m have "isdigit a" by (simp add: drawing_no_match_def)
  with s show ?thesis by auto
qed

lemma drawing_no_search_Some:
  "drawing_no_search t = Some c \<Longrightarrow>
     \<exists>pre post. t = pre @ c @ post \<and> length c = 9 \<and> drawing_no_match c \<and>
       (\<forall>k < length pre. \<not> drawing_no_match (drop k t))"
proof (induction t)
  case Nil
  then show ?case by simp
next
  case (Cons a t)
  show ?case
  proof (cases "drawing_no_match (a # t)")
    case True
    with Cons.prems have c: "c = take 9 (a # t)" by simp
    have "a # t = [] @ c @ drop 9 (a # t)" using c by simp
    moreover have "length c = 9 \<and> drawing_no_match c"
      using drawing_no_match_take [OF True] c by simp
    ultimately show ?thesis by (metis length_0_conv less_nat_zero_code list.size(3))
  next
    case False
    with Cons.prems have "drawing_no_search t = Some c" by simp
    then obtain pre post where p: "t = pre @ c @ post" "length c = 9" "drawing_no_match c"
        "\<forall>k < length pre. \<not> drawing_no_match (drop k t)"
      using Cons.IH by blast
    have "\<forall>k < length (a # pre). \<not> drawing_no_match (drop k (a # t))"
    proof (intro allI impI)
      fix k assume k: "k < length (a # pre)"
      show "\<not> drawing_no_match (drop k (a # t))"
      proof (cases k)
        case 0
        then show ?thesis using False by simp
      next
        case (Suc j)
        then show ?thesis using k p(4) by simp
      qed
    qed
    moreover have "a # t = (a # pre) @ c @ post" using p(1) by simp
    ultimately show ?thesis using p(2,3) by blast
  qed
qed

lemma drawing_no_search_None_iff:
  "drawing_no_search t = None \<longleftrightarrow> (\<forall>k < length t. \<not> drawing_no_match (drop k t))"
proof (induction t)
  case Nil
  then show ?case by simp
next
  case (Cons a t)
  show ?case
  proof (cases "drawing_no_match (a # t)")
    case True
    then show ?thesis by auto
  next
    case False
    have "(\<forall>k < length (a # t). \<not> drawing_no_match (drop k (a # t))) \<longleftrightarrow>
          (\<forall>k < length t. \<not> drawing_no_match (drop k t))"
      using False by (auto simp add: less_Suc_eq_0_disj)
    with False Cons.IH show ?thesis by simp
  qed
qed

lemma drawing_no_search_blank: "\<forall>x \<in> set t. isspace x \<Longrightarrow> drawing_no_search t = None"
proof (rule ccontr)
  assume b: "\<forall>x \<in> set t. isspace x" and "drawing_no_search t \<noteq> None"
  then obtain c where "drawing_no_search t = Some c" by auto
  then obtain pre post where p: "t = pre @ c @ post" "drawing_no_match c"
    using drawing_no_search_Some by blast
  then obtain d where "d \<in> set c" "isdigit d"
    using drawing_no_match_digit by blast
  then show False using b p(1) isdigit_not_isspace by auto
qed

lemma extract_by_rules_unfold:
  assumes "scan_lines (text_lines t) (enumerate 0 (text_lines t)) empty_fields = Inr scanned"
  shows "extract_by_rules t = Inr (regex_drawing_no t scanned)"
proof (cases "\<forall>x \<in> set t. isspace x")
  case True
  then have l: "text_lines t = []" by (simp add: text_lines_empty_iff)
  with assms have "scanned = empty_fields" by simp
  moreover have "strip t = []" using True by (simp add: strip_empty_iff)
  ultimately show ?thesis
    using drawing_no_search_blank [OF True]
    by (simp add: extract_by_rules_def regex_drawing_no_def)
next
  case False
  then have "text_lines t \<noteq> []" "strip t \<noteq> []" "t \<noteq> []"
    by (auto simp add: text_lines_empty_iff strip_empty_iff)
  then show ?thesis
    using assms by (simp add: extract_by_rules_def Let_def)
qed

text \<open>A value matches the pattern exactly when it begins with a drawing number.\<close>

lemma drawing_no_match_prefix:
  "drawing_no_match v \<longleftrightarrow> (\<exists>c rest. v = c @ rest \<and> is_drawing_no c)"
proof
  assume m: "drawing_no_match v"
  then have "is_drawing_no (take 9 v)"
    by (simp add: is_drawing_no_def drawing_no_match_def take_drop)
  moreover have "v = take 9 v @ drop 9 v" by simp
  ultimately show "\<exists>c rest. v = c @ rest \<and> is_drawing_no c" by blast
next
  assume "\<exists>c rest. v = c @ rest \<and> is_drawing_no c"
  then obtain c rest where v: "v = c @ rest" and c: "is_drawing_no c" by blast
  from c have "take 4 (drop 5 c) = drop 5 c"
    by (simp add: is_drawing_no_def)
  with v c show "drawing_no_match v"
    by (simp add: is_drawing_no_def drawing_no_match_def nth_append)
qed

text \<open>The text "zuban / 2509-0017A / No 1111-2222".\<close>

lemma suffix_lines:
  "text_lines suffix_text = [ [22259, 30058], [50, 53, 48, 57, 45, 48, 48, 49, 55, 65],
     [78, 111, 32, 49, 49, 49, 49, 45, 50, 50, 50, 50] ]"
  by (simp add: suffix_text_def text_lines_def splitlines_def islinebreak_def strip_def isspace_def)

lemma suffix_scan:
  "scan_lines (text_lines suffix_text) (enumerate 0 (text_lines suffix_text)) empty_fields =
     Inr (empty_fields\<lparr>drawing_no := Some [50, 53, 48, 57, 45, 48, 48, 49, 55, 65]\<rparr>)"
  unfolding suffix_lines by (simp add: empty_fields_def rule_eval)

lemma suffix_search: "drawing_no_search suffix_text = Some [50, 53, 48, 57, 45, 48, 48, 49, 55]"
  by (simp add: suffix_text_def drawing_no_match_def isdigit_low isdigit_mid)
subsection \<open>Splitting at a separator\<close>

lemma split_head_decompose:
  "contains sep t \<Longrightarrow> \<exists>rest. t = split_head sep t @ sep @ rest"
proof (induction t)
  case Nil
  then show ?case by simp
next
  case (Cons c cs)
  show ?case
  proof (cases "startswith (c # cs) sep")
    case True
    then have "c # cs = sep @ drop (length sep) (c # cs)"
      by (metis append_take_drop_id startswith_def)
    with True show ?thesis by auto
  next
    case False
    with Cons show ?thesis by auto
  qed
qed

lemma split_head_first:
  "k < length (split_head sep t) \<Longrightarrow> \<not> startswith (drop k t) sep"
proof (induction t arbitrary: k)
  case Nil
  then show ?case by simp
next
  case (Cons c cs)
  then show ?case by (cases k) (auto split: if_splits)
qed

lemma first_page_loop_find:
  "first_page_loop seps t =
     (case find (\<lambda>sep. contains sep t) seps of None \<Rightarrow> t | Some sep \<Rightarrow> strip (split_head sep t))"
  by (induction seps) auto

lemma first_page_find:
  "first_page_ocr_text t =
     (case find (\<lambda>sep. contains sep t) PAGE_MARKERS of
        None \<Rightarrow> t
      | Some sep \<Rightarrow> strip (split_head sep t))"
proof (cases "t = []")
  case True
  then have "find (\<lambda>sep. contains sep t) PAGE_MARKERS = None"
    by (simp add: PAGE_MARKERS_def)
  with True show ?thesis by (simp add: first_page_ocr_text_def)
next
  case False
  then show ?thesis by (simp add: first_page_ocr_text_def first_page_loop_find)
qed

lemma first_page_no_marker:
  assumes "\<forall>sep \<in> set PAGE_MARKERS. \<not> contains sep t"
  shows "first_page_ocr_text t = t"
proof -
  from assms have "find (\<lambda>sep. contains sep t) PAGE_MARKERS = None"
    by (simp add: find_None_iff)
  then show ?thesis by (simp add: first_page_find)
qed

subsection \<open>The cascade\<close>

lemma json_of_opt_truthy: "(json_of_opt v \<noteq> JNull \<and> json_of_opt v \<noteq> JStr []) \<longleftrightarrow> truthy v"
  by (cases v) auto

lemma has_any_fields:
  "has_any_items (dict_of_fields r) \<longleftrightarrow>
     truthy (title r) \<or> truthy (drawing_no r) \<or> truthy (part_name r) \<or> truthy (material r) \<or>
     truthy (surface_treatment r) \<or> truthy (process_note r) \<or> truthy (issue_date r) \<or>
     tags r \<noteq> []"
  by (simp add: dict_of_fields_def key_defs json_of_opt_truthy)

lemma known_label_key:
  "line \<in> set KNOWN_LABELS \<Longrightarrow> map_of LABEL_TO_KEY line \<noteq> Some Issue_date"
  by (auto simp add: KNOWN_LABELS_def LABEL_TO_KEY_def label_defs)

lemma store_value_issue_date:
  "out_key \<noteq> Issue_date \<Longrightarrow> issue_date (store_value out_key v r) = issue_date r"
  by (cases out_key) (simp_all add: store_value_def)

lemma rule_step_issue_date:
  "rule_step lines i line r = Inr r' \<Longrightarrow> issue_date r' = issue_date r"
proof (cases "line \<in> set KNOWN_LABELS")
  case False
  assume "rule_step lines i line r = Inr r'"
  with False show ?thesis by (simp add: rule_step_def)
next
  case True
  assume s: "rule_step lines i line r = Inr r'"
  show ?thesis
  proof (cases "map_of LABEL_TO_KEY line")
    case None
    with s True show ?thesis by (simp add: rule_step_def)
  next
    case (Some out_key)
    with True have "out_key \<noteq> Issue_date" using known_label_key by auto
    with s True Some show ?thesis
      by (auto simp add: rule_step_def store_value_issue_date split: sum.splits)
  qed
qed

lemma scan_lines_issue_date:
  "scan_lines lines es r = Inr r' \<Longrightarrow> issue_date r' = issue_date r"
proof (induction es arbitrary: r)
  case Nil
  then show ?case by simp
next
  case (Cons e es)
  obtain i l where e: "e = (i, l)" by (cases e)
  from Cons.prems e obtain r1 where r1: "rule_step lines i l r = Inr r1" "scan_lines lines es r1 = Inr r'"
    by (auto split: sum.splits)
  then show ?case using Cons.IH [of r1] rule_step_issue_date [of lines i l r r1] by simp
qed

lemma extract_by_rules_issue_date:
  "extract_by_rules t = Inr r \<Longrightarrow> issue_date r = None"
proof -
  assume e: "extract_by_rules t = Inr r"
  obtain scanned where s: "scan_lines (text_lines t) (enumerate 0 (text_lines t)) empty_fields = Inr scanned"
    using scan_enumerate_total by blast
  then have "issue_date scanned = None"
    using scan_lines_issue_date [OF s] by (simp add: empty_fields_def)
  moreover have "r = regex_drawing_no t scanned"
    using extract_by_rules_unfold [OF s] e by simp
  ultimately show ?thesis
    by (simp add: regex_drawing_no_def Let_def split: option.split)
qed

lemma validate_rule_result:
  "issue_date r = None \<Longrightarrow> validate_issue_date (dict_of_fields r) = dict_of_fields r"
  by (simp add: validate_issue_date_def dict_of_fields_def dict_get_def key_defs)

lemma dict_get_dict_set: "dict_get (dict_set d k v) k = v"
  by (induction d) (auto simp add: dict_get_def)

lemma validate_issue_date_accepted:
  "py_bool (dict_get (validate_issue_date d) k_issue_date) \<Longrightarrow>
     date_accepted (dict_get (validate_issue_date d) k_issue_date)"
  by (auto simp add: validate_issue_date_def Let_def dict_get_dict_set split: if_splits)

lemma slash_date_rejected: "\<not> strptime_ymd slash_date"
  by (simp add: strptime_ymd_def slash_date_def isdigit_low)

lemma plain_text_preprocess: "preprocess_ocr_for_extraction [97, 98, 99] = Inr [97, 98, 99]"
  by (simp add: preprocess_ocr_for_extraction_def text_lines_def splitlines_def
        islinebreak_def strip_def isspace_def KNOWN_LABELS_def label_defs)

lemma plain_text_rules: "extract_by_rules [97, 98, 99] = Inr empty_fields"
  by (simp add: extract_by_rules_def text_lines_def splitlines_def islinebreak_def
        strip_def isspace_def rule_step_def KNOWN_LABELS_def label_defs
        regex_drawing_no_def drawing_no_match_def)

lemma empty_dict_issue_date: "\<not> py_bool (dict_get [] k_issue_date)"
  by (simp add: dict_get_def)

lemma generative_fallback_issue_date:
  assumes "generative_fallback en drawing_id t w = (Inr (JObj d), w')"
  shows "py_bool (dict_get d k_issue_date) \<longrightarrow> date_accepted (dict_get d k_issue_date)"
  using assms validate_issue_date_accepted empty_dict_issue_date
  by (auto simp add: generative_fallback_def Let_def
      split: sum.splits prod.splits if_splits bool.splits json.splits)

lemma cascade_issue_date:
  assumes "process_ai_extraction_for_drawing en drawing_id w = (Inr (JObj d), w')"
  shows "py_bool (dict_get d k_issue_date) \<longrightarrow> date_accepted (dict_get d k_issue_date)"
  using assms validate_issue_date_accepted empty_dict_issue_date generative_fallback_issue_date
  by (auto simp add: process_ai_extraction_for_drawing_def cascade_def Let_def
      split: option.splits sum.splits if_splits json.splits)

text \<open>
  The texts that the cascade hands to the generative model: every one of them is the
  \<open>ocr_text_for_ai\<close> of the first page.
\<close>

lemma prompts_append: "prompts (xs @ ys) = prompts xs @ prompts ys"
  by (induction xs rule: prompts.induct) simp_all

lemma multimodal_attempt_calls:
  assumes "multimodal_attempt en d x w = (r, w1)"
  shows "\<exists>new. calls w1 = calls w @ new \<and> list_all (\<lambda>y. y = x) (prompts new)"
  using assms
  by (auto simp add: multimodal_attempt_def get_image_bytes_from_gcs_def record_call_def Let_def
      split: list.splits sum.splits if_splits option.splits prod.splits)

lemma generative_fallback_calls:
  assumes "generative_fallback en d ocr_first w = (res, w')"
  shows "\<exists>new. calls w' = calls w @ new \<and>
           list_all (ocr_text_for_ai_of ocr_first) (prompts new)"
proof (cases "preprocess_ocr_for_extraction ocr_first")
  case (Inl e)
  then show ?thesis using assms by (simp add: generative_fallback_def)
next
  case (Inr p)
  define x where "x = (if p \<noteq> [] \<and> p \<noteq> ocr_first then p else ocr_first)"
  have ox: "ocr_text_for_ai_of ocr_first = (\<lambda>y. y = x)"
    by (rule ext) (simp add: ocr_text_for_ai_of_def Inr x_def)
  obtain r w1 where m: "multimodal_attempt en d x w = (r, w1)"
    by (cases "multimodal_attempt en d x w")
  from multimodal_attempt_calls [OF m] obtain new1 where
    n1: "calls w1 = calls w @ new1" "list_all (\<lambda>y. y = x) (prompts new1)" by blast
  have "calls w' = calls w1 \<or> calls w' = calls w1 @ [Text_only x]"
    using assms Inr m
    by (auto simp add: generative_fallback_def Let_def x_def [symmetric] record_call_def
        split: sum.splits prod.splits if_splits bool.splits json.splits)
  then show ?thesis
  proof
    assume "calls w' = calls w1"
    then show ?thesis using n1 ox by auto
  next
    assume "calls w' = calls w1 @ [Text_only x]"
    then have "calls w' = calls w @ (new1 @ [Text_only x])" using n1 by simp
    moreover have "list_all (\<lambda>y. y = x) (prompts (new1 @ [Text_only x]))"
      using n1 by (simp add: prompts_append)
    ultimately show ?thesis using ox by metis
  qed
qed

lemma cascade_calls:
  assumes "cascade en d t w = (res, w')"
  shows "\<exists>new. calls w' = calls w @ new \<and>
           list_all (ocr_text_for_ai_of (first_page_ocr_text t)) (prompts new)"
proof (cases "extract_by_rules (first_page_ocr_text t)")
  case (Inl e)
  then show ?thesis using assms by (simp add: cascade_def)
next
  case (Inr r)
  show ?thesis
  proof (cases "has_any_items (dict_of_fields r)")
    case True
    then show ?thesis using assms Inr by (auto simp add: cascade_def)
  next
    case False
    then have "generative_fallback en d (first_page_ocr_text t) w = (res, w')"
      using assms Inr by (simp add: cascade_def)
    then show ?thesis by (rule generative_fallback_calls)
  qed
qed

lemma process_stored_text:
  assumes "drawings w d = Some row" and "stored_ocr_text row = Inr (JStr t)" and "t \<noteq> []"
  shows "process_ai_extraction_for_drawing en d w = cascade en d t w"
  using assms by (simp add: process_ai_extraction_for_drawing_def)

text \<open>The two-page texts of the scenarios, and the model that echoes its text.\<close>

lemma other_pages_no_marker: "list_all (\<lambda>sep. \<not> contains sep other_pages_text) PAGE_MARKERS"
  by (simp add: PAGE_MARKERS_def other_pages_text_def startswith_def)

lemma first_page_lines:
  "text_lines [91, 12506, 12540, 12472, 32, 49, 93, 10, 65] =
     [ [91, 12506, 12540, 12472, 32, 49, 93], [65] ]"
  by (simp add: text_lines_def splitlines_def islinebreak_def strip_def isspace_def)

lemma other_pages_lines:
  "text_lines other_pages_text =
     [ [91, 12506, 12540, 12472, 32, 54, 93], [65], [91, 12506, 12540, 12472, 32, 55, 93], [66] ]"
  by (simp add: other_pages_text_def text_lines_def splitlines_def islinebreak_def strip_def
        isspace_def)

lemma first_page_rules:
  "extract_by_rules [91, 12506, 12540, 12472, 32, 49, 93, 10, 65] = Inr empty_fields"
proof -
  have s: "strip [91, 12506, 12540, 12472, 32, 49, 93, 10, 65] \<noteq> []"
    by (simp add: strip_def isspace_def)
  have d: "drawing_no_search [91, 12506, 12540, 12472, 32, 49, 93, 10, 65] = None"
    by (simp add: drawing_no_match_def)
  show ?thesis
    by (simp add: extract_by_rules_def s first_page_lines Let_def regex_drawing_no_def drawing_no_match_def
          rule_step_def KNOWN_LABELS_def label_defs)
qed

lemma other_pages_rules: "extract_by_rules other_pages_text = Inr empty_fields"
proof -
  have s: "strip other_pages_text \<noteq> []" "other_pages_text \<noteq> []"
    by (simp_all add: other_pages_text_def strip_def isspace_def)
  have d: "drawing_no_search other_pages_text = None"
    by (simp add: other_pages_text_def drawing_no_match_def)
  show ?thesis
    by (simp add: extract_by_rules_def s other_pages_lines Let_def regex_drawing_no_def d
          rule_step_def KNOWN_LABELS_def label_defs)
qed

lemma first_page_preprocess:
  "preprocess_ocr_for_extraction [91, 12506, 12540, 12472, 32, 49, 93, 10, 65] =
     Inr [91, 12506, 12540, 12472, 32, 49, 93, 10, 65]"
  by (simp add: preprocess_ocr_for_extraction_def first_page_lines Let_def
        strip_def isspace_def KNOWN_LABELS_def label_defs)

lemma other_pages_preprocess:
  "preprocess_ocr_for_extraction other_pages_text = Inr other_pages_text"
proof -
  have s: "strip other_pages_text \<noteq> []" "other_pages_text \<noteq> []"
    by (simp_all add: other_pages_text_def strip_def isspace_def)
  show ?thesis
    by (simp add: preprocess_ocr_for_extraction_def s other_pages_lines Let_def
          KNOWN_LABELS_def label_defs)
qed

lemma echo_fallback:
  assumes "preprocess_ocr_for_extraction x = Inr x" and "x \<noteq> []"
    and "files w = []"
  shows "generative_fallback echo_env d x w =
           (Inr (JObj [(k_title, JStr x)]), w\<lparr>calls := calls w @ [Text_only x]\<rparr>)"
proof -
  have m: "multimodal_attempt echo_env d x w = (JObj [], w)"
    using assms(3) by (simp add: multimodal_attempt_def files_of_def order_by_page_no_def)
  have t: "text_only echo_env = (\<lambda>t. Inr (JObj [(k_title, JStr t)]))"
    by (simp add: echo_env_def failing_env_def)
  have v: "validate_issue_date [(k_title, JStr x)] = [(k_title, JStr x)]"
    by (simp add: validate_issue_date_def dict_get_def key_defs)
  have u: "unusable (JObj [(k_title, JStr x)]) = Inr False"
    using assms(2) by (simp add: unusable_def key_defs)
  have u0: "unusable (JObj []) = Inr True"
    by (simp add: unusable_def)
  show ?thesis
    by (simp add: generative_fallback_def Let_def assms(1) m t v u u0 record_call_def)
qed

lemma stored_two_page: "stored_ocr_text two_page_drawing = Inr (JStr two_page_text)"
  by (simp add: stored_ocr_text_def two_page_drawing_def baseplate_drawing_def dict_get_def key_defs)

lemma stored_other_pages: "stored_ocr_text other_pages_drawing = Inr (JStr other_pages_text)"
  by (simp add: stored_ocr_text_def other_pages_drawing_def baseplate_drawing_def dict_get_def key_defs)

subsection \<open>Normalisation and the update of the row\<close>

lemma column_keys_distinct: "distinct column_keys"
  by (simp add: column_keys_def key_defs)

lemma extracted_json_no_column: "k_extracted_json \<notin> set column_keys"
  by (simp add: column_keys_def key_defs)

lemma dict_get_normalize_keys:
  "distinct ks \<Longrightarrow>
   dict_get (normalize_keys ks ai) k =
     (if k \<in> set ks \<and> normalized_value ai k \<noteq> JNull \<and> normalized_value ai k \<noteq> JStr [] \<and>
         (k \<noteq> k_tags \<or> is_list (normalized_value ai k))
      then normalized_value ai k else JNull)"
proof (induction ks)
  case Nil
  then show ?case by (simp add: dict_get_def)
next
  case (Cons a ks)
  then show ?case by (auto simp add: dict_get_def Let_def)
qed

lemma map_of_collect_fields:
  "distinct ks \<Longrightarrow>
   map_of (collect_fields ks n) k =
     (if k \<in> set ks \<and> py_bool (dict_get n k) \<and> (k \<noteq> k_tags \<or> is_list (dict_get n k))
      then Some (dict_get n k) else None)"
  by (induction ks) auto

lemma collect_fields_keys: "fst ` set (collect_fields ks n) \<subseteq> set ks"
  by (induction ks) auto

lemma collect_fields_distinct: "distinct ks \<Longrightarrow> distinct (map fst (collect_fields ks n))"
proof (induction ks)
  case Nil
  then show ?case by simp
next
  case (Cons a ks)
  then show ?case using collect_fields_keys [of ks n] by auto
qed

lemma columns_apply_payload:
  "k \<noteq> k_extracted_json \<Longrightarrow> distinct (map fst p) \<Longrightarrow>
   columns (apply_payload p row) k =
     (case map_of p k of None \<Rightarrow> columns row k | Some v \<Rightarrow> Some v)"
proof (induction p arbitrary: row)
  case Nil
  then show ?case by simp
next
  case (Cons a p)
  obtain k' v' where a: "a = (k', v')" by (cases a)
  from Cons.prems a have d: "distinct (map fst p)" and n: "k' \<notin> fst ` set p" by auto
  from n have "map_of p k' = None" by (simp add: map_of_eq_None_iff)
  then show ?case
    using Cons.IH [OF Cons.prems(1) d] a Cons.prems(1) by (auto split: option.splits)
qed

lemma normalized_tags_list:
  "py_bool (dict_get (normalize_ai_result ai) k_tags) \<Longrightarrow>
     is_list (dict_get (normalize_ai_result ai) k_tags)"
  by (simp add: normalize_ai_result_def dict_get_normalize_keys column_keys_distinct
        split: if_splits)

lemma map_of_update_fields:
  assumes "k \<in> set column_keys"
  shows "map_of (update_fields ai) k =
     (if py_bool (dict_get (normalize_ai_result ai) k)
      then Some (dict_get (normalize_ai_result ai) k) else None)"
  using assms normalized_tags_list [of ai]
  by (auto simp add: update_fields_def map_of_collect_fields column_keys_distinct)

lemma columns_after_save:
  assumes "drawings w d = Some row" and "k \<in> set column_keys"
  shows "\<exists>row'. drawings (save_extracted_fields_to_drawing d ai w) d = Some row' \<and>
     columns row' k = (case map_of (update_fields ai) k of None \<Rightarrow> columns row k | Some v \<Rightarrow> Some v)"
proof -
  have ne: "k \<noteq> k_extracted_json"
    using assms(2) extracted_json_no_column by auto
  have dk: "distinct (map fst (update_fields ai))"
    by (simp add: update_fields_def collect_fields_distinct column_keys_distinct)
  have "k_extracted_json \<notin> fst ` set (update_fields ai)"
    using collect_fields_keys [of column_keys "normalize_ai_result ai"] extracted_json_no_column
    by (auto simp add: update_fields_def)
  then have d2: "distinct (map fst (update_fields ai @ [(k_extracted_json, x)]))" for x
    using dk by auto
  have m: "map_of (update_fields ai @ [(k_extracted_json, x)]) k = map_of (update_fields ai) k" for x
    using ne by (simp add: map_add_def split: option.splits)
  show ?thesis
    using assms(1)
    by (simp add: save_extracted_fields_to_drawing_def update_drawing_def Let_def
          columns_apply_payload [OF ne d2] m del: map_of_append map_append)
qed

subsection \<open>The OCR loop\<close>

lemma ocr_page_result:
  "\<exists>w'. ocr_page en d (pages, texts, w) f =
     (pages @ [page_entry en f],
      texts @ map page_block (filter (\<lambda>p. snd p \<noteq> []) [page_entry en f]), w')"
  by (simp add: ocr_page_def page_entry_def page_text_def page_block_def Let_def
      split: sum.splits)

lemma ocr_loop_result:
  "\<exists>w'. foldl (ocr_page en d) (pages, texts, w) fs =
     (pages @ map (page_entry en) fs,
      texts @ map page_block (filter (\<lambda>p. snd p \<noteq> []) (map (page_entry en) fs)), w')"
proof (induction fs arbitrary: pages texts w)
  case Nil
  then show ?case by simp
next
  case (Cons f fs)
  obtain w1 where s: "ocr_page en d (pages, texts, w) f =
     (pages @ [page_entry en f],
      texts @ map page_block (filter (\<lambda>p. snd p \<noteq> []) [page_entry en f]), w1)"
    using ocr_page_result by blast
  obtain w2 where "foldl (ocr_page en d)
       (pages @ [page_entry en f],
        texts @ map page_block (filter (\<lambda>p. snd p \<noteq> []) [page_entry en f]), w1) fs =
     ((pages @ [page_entry en f]) @ map (page_entry en) fs,
      (texts @ map page_block (filter (\<lambda>p. snd p \<noteq> []) [page_entry en f])) @
        map page_block (filter (\<lambda>p. snd p \<noteq> []) (map (page_entry en) fs)), w2)"
    using Cons.IH by blast
  then show ?case using s by auto
qed

lemma process_ocr_result:
  "fst (process_ocr_for_drawing en d w) =
     (join [10, 10] (map page_block (filter (\<lambda>p. snd p \<noteq> [])
        (map (page_entry en) (order_by_page_no (files_of w d Page_image))))),
      map (page_entry en) (order_by_page_no (files_of w d Page_image)))"
proof (cases "order_by_page_no (files_of w d Page_image) = []")
  case True
  then show ?thesis by (simp add: process_ocr_for_drawing_def)
next
  case False
  obtain w' where "foldl (ocr_page en d) ([], [], w) (order_by_page_no (files_of w d Page_image)) =
     ([] @ map (page_entry en) (order_by_page_no (files_of w d Page_image)),
      [] @ map page_block (filter (\<lambda>p. snd p \<noteq> [])
        (map (page_entry en) (order_by_page_no (files_of w d Page_image)))), w')"
    using ocr_loop_result by blast
  with False show ?thesis by (simp add: process_ocr_for_drawing_def Let_def)
qed

lemma contains_append: "contains sep (pre @ sep @ post)"
proof (induction pre)
  case Nil
  show ?case
  proof (cases "sep @ post")
    case Nil
    then show ?thesis by simp
  next
    case (Cons c cs)
    have "contains sep (c # cs)" 
      unfolding Cons [symmetric] contains.simps startswith_def
      using Cons by (cases sep) (auto simp add: startswith_def)
    then show ?thesis using Cons by simp
  qed
next
  case (Cons a pre)
  then show ?case by simp
qed

lemma join_member: "p \<in> set ps \<Longrightarrow> \<exists>pre post. join sep ps = pre @ p @ post"
proof (induction sep ps rule: join.induct)
  case (1 sep)
  then show ?case by simp
next
  case (2 sep q)
  then have "join sep [q] = [] @ p @ []" by simp
  then show ?case by blast
next
  case (3 sep q r rs)
  show ?case
  proof (cases "p = q")
    case True
    then have "join sep (q # r # rs) = [] @ p @ (sep @ join sep (r # rs))" by simp
    then show ?thesis by blast
  next
    case False
    with 3 obtain pre post where "join sep (r # rs) = pre @ p @ post" by auto
    then have "join sep (q # r # rs) = (q @ sep @ pre) @ p @ post" by simp
    then show ?thesis by blast
  qed
qed

lemma contains_join: "p \<in> set ps \<Longrightarrow> contains p (join sep ps)"
  using join_member [of p ps sep] contains_append by metis

lemma page_entry_db_independent:
  "page_entry (en\<lparr>db_write_fails := fails, db_write_error := err\<rparr>) = page_entry en"
  by (rule ext) (simp add: page_entry_def page_text_def split: sum.splits)

lemma ocr_world_pages:
  "order_by_page_no (files_of ocr_world [100] Page_image) = rev two_page_files"
  by (simp add: ocr_world_def baseplate_world_def files_of_def two_page_files_def
        order_by_page_no_def)

lemma contains_iff: "contains sep t \<longleftrightarrow> (\<exists>pre post. t = pre @ sep @ post)"
  using split_head_decompose contains_append by metis

subsection \<open>Stages and the job queue\<close>

lemma update_job_other_tables:
  "files (update_job en jid st step err started finished w) = files w"
  "drawings (update_job en jid st step err started finished w) = drawings w"
  "calls (update_job en jid st step err started finished w) = calls w"
  "clock (update_job en jid st step err started finished w) = clock w"
  by (simp_all add: update_job_def)

lemma set_processing_other_tables:
  "files (set_processing d w) = files w"
  "jobs (set_processing d w) = jobs w"
  "calls (set_processing d w) = calls w"
  "clock (set_processing d w) = clock w"
  by (simp_all add: set_processing_def split: option.split)

lemma files_of_cong: "files w = files w' \<Longrightarrow> files_of w d t = files_of w' d t"
  by (simp add: files_of_def)

lemma fetch_configured: "fetch_one_queued_job en w = Some job \<Longrightarrow> supabase_configured en"
  by (simp add: fetch_one_queued_job_def split: if_splits)

lemma oldest_member: "oldest js = Some j \<Longrightarrow> j \<in> set js"
  by (induction js arbitrary: j) (auto split: option.splits if_splits)

lemma fetch_member:
  "fetch_one_queued_job en w = Some job \<Longrightarrow> job \<in> set (jobs w) \<and> job_status job = Queued"
  using oldest_member [of "filter (\<lambda>j. job_status j = Queued) (jobs w)" job]
  by (auto simp add: fetch_one_queued_job_def split: if_splits)

lemma vectorize_and_upsert_tables:
  "vectorize_and_upsert en d c ej w = (r, w') \<Longrightarrow>
     drawings w' = drawings w \<and> jobs w' = jobs w \<and> files w' = files w \<and>
     ocr_tokens w' = ocr_tokens w \<and> clock w' = clock w"
  by (auto simp add: vectorize_and_upsert_def get_embedding_def record_call_def
      split: if_splits sum.splits option.splits prod.splits)

lemma vectorize_tables:
  "vectorize_drawing_for_search en d w = (r, w') \<Longrightarrow>
     drawings w' = drawings w \<and> jobs w' = jobs w \<and> files w' = files w \<and>
     ocr_tokens w' = ocr_tokens w \<and> clock w' = clock w"
  using vectorize_and_upsert_tables
  by (auto simp add: vectorize_drawing_for_search_def Let_def split: if_splits option.splits)

lemma vectorize_stage_tables:
  "drawings (vectorize_stage en d w) = drawings w"
  "jobs (vectorize_stage en d w) = jobs w"
  "clock (vectorize_stage en d w) = clock w"
proof -
  obtain r w' where v: "vectorize_drawing_for_search en d (record_call (Run_stage Vectorize) w) = (r, w')"
    by (cases "vectorize_drawing_for_search en d (record_call (Run_stage Vectorize) w)")
  from vectorize_tables [OF v]
  show "drawings (vectorize_stage en d w) = drawings w"
    "jobs (vectorize_stage en d w) = jobs w"
    "clock (vectorize_stage en d w) = clock w"
    using v by (simp_all add: vectorize_stage_def record_call_def)
qed

lemma update_job_success:
  "supabase_configured en \<Longrightarrow>
   jobs (update_job en jid Success None None None (Some t) w) =
     map (\<lambda>j. if job_id j = jid then j\<lparr>job_status := Success, finished_at := Some t\<rparr> else j) (jobs w)"
  by (simp add: update_job_def keep_def)

lemma cycle_later_stages:
  assumes "fetch_one_queued_job en w = Some job"
    and "rasterize_stage en (job_drawing_id job)
           (set_processing (job_drawing_id job)
              (update_job en (job_id job) Running (Some str_convert) None (Some (clock w)) None w)) =
         (Inr True, w2)"
  shows "run_one_cycle en w =
     update_job en (job_id job) Success None None None
       (Some (clock (extract_stage en (job_drawing_id job) (ocr_stage en (job_drawing_id job) w2))))
       (vectorize_stage en (job_drawing_id job)
          (extract_stage en (job_drawing_id job) (ocr_stage en (job_drawing_id job) w2)))"
  using assms fetch_configured [OF assms(1)]
  by (simp add: run_one_cycle_def process_drawing_job_def vectorize_stage_tables)

lemma no_files_rasterize:
  assumes "filter (\<lambda>f. file_mime f = mime_pdf) (files_of w d Original) = []"
    and "files_of w d Page_image = []" and "files w' = files w"
  shows "rasterize_stage en d w' = (Inr False, w')"
  using assms files_of_cong [OF assms(3), of d]
  by (simp add: rasterize_stage_def)

subsection \<open>The cycle of the scenario, stage by stage\<close>

lemma q_fetch: "fetch_one_queued_job upsert_fails_env queued_world = Some queued_job"
  by (simp add: fetch_one_queued_job_def upsert_fails_env_def queued_world_def queued_job_def)

lemma q_claim:
  "set_processing [100]
     (update_job upsert_fails_env [106] Running (Some str_convert) None (Some 7) None queued_world) =
   running_world"
  by (simp add: set_processing_def update_job_def upsert_fails_env_def queued_world_def
        queued_job_def running_world_def keep_def)

lemma q_rasterize: "rasterize_stage upsert_fails_env [100] running_world = (Inr True, running_world)"
  by (simp add: rasterize_stage_def files_of_def running_world_def page_one_def)

lemma q_pages: "order_by_page_no (files_of (record_call (Run_stage Ocr) running_world) [100] Page_image) = [page_one]"
  by (simp add: order_by_page_no_def files_of_def record_call_def running_world_def page_one_def)

lemma q_header: "page_header 1 @ str_2509_0017 = page_one_text"
  by (simp add: page_header_def page_word_def str_of_int_def str_of_nat.simps
        str_2509_0017_def page_one_text_def)

lemma q_ocr_run:
  "process_ocr_for_drawing upsert_fails_env [100] (record_call (Run_stage Ocr) running_world) =
     ((page_one_text, [(1, str_2509_0017)]),
      running_world\<lparr>files := [page_one\<lparr>image_width := Some 10, image_height := Some 20\<rparr>],
        calls := [Run_stage Ocr, Download [112], Ocr_engine [1] ]\<rparr>)"
proof -
  have n: "str_2509_0017 \<noteq> []" by (simp add: str_2509_0017_def)
  have p: "page_no_of page_one = 1" "file_gcs_path page_one = [112]" "file_id page_one = [49]"
    by (simp_all add: page_no_of_def page_one_def)
  have e: "download upsert_fails_env = (\<lambda>p. Inr [1])"
    "ocr_engine upsert_fails_env = (\<lambda>b. Inr \<lparr>out_text = str_2509_0017, out_tokens = [], out_width = 10, out_height = 20\<rparr>)"
    "db_write_fails upsert_fails_env = (\<lambda>op. False)"
    by (simp_all add: upsert_fails_env_def)
  show ?thesis
    by (simp only: process_ocr_for_drawing_def q_pages Let_def)
       (simp add: ocr_page_def Let_def p e n q_header persist_page_def update_size_def
          delete_tokens_def record_call_def running_world_def)
qed

lemma q_ocr: "ocr_stage upsert_fails_env [100] running_world = after_ocr_world"
  by (simp only: ocr_stage_def q_ocr_run)
     (simp add: Let_def update_drawing_def json_of_ocr_def after_ocr_world_def
        ocr_document_def running_world_def page_one_text_def str_2509_0017_def)

lemma q_stored: "\<exists>row. drawings (record_call (Run_stage Extract) after_ocr_world) [100] = Some row \<and>
    stored_ocr_text row = Inr (JStr page_one_text)"
  by (simp add: record_call_def after_ocr_world_def stored_ocr_text_def ocr_document_def
        key_defs page_one_text_def)

lemma q_first: "first_page_ocr_text page_one_text = page_one_text"
  by (simp add: first_page_ocr_text_def PAGE_MARKERS_def page_one_text_def startswith_def)

lemma q_lines: "text_lines page_one_text = [ [91, 12506, 12540, 12472, 32, 49, 93], str_2509_0017]"
  by (simp add: page_one_text_def str_2509_0017_def text_lines_def splitlines_def
        islinebreak_def strip_def isspace_def)

lemma q_rules: "extract_by_rules page_one_text = Inr (empty_fields\<lparr>drawing_no := Some str_2509_0017\<rparr>)"
proof -
  have s: "scan_lines (text_lines page_one_text) (enumerate 0 (text_lines page_one_text)) empty_fields =
      Inr empty_fields"
    unfolding q_lines by (simp add: rule_step_def KNOWN_LABELS_def label_defs str_2509_0017_def)
  have d: "drawing_no_search page_one_text = Some str_2509_0017"
    by (simp add: page_one_text_def str_2509_0017_def drawing_no_match_def isdigit_low isdigit_mid)
  show ?thesis
    using extract_by_rules_unfold [OF s] d
    by (simp add: regex_drawing_no_def empty_fields_def)
qed

lemma q_cascade:
  "process_ai_extraction_for_drawing upsert_fails_env [100]
     (record_call (Run_stage Extract) after_ocr_world) =
   (Inr (JObj ai_document), record_call (Run_stage Extract) after_ocr_world)"
proof -
  obtain row where r: "drawings (record_call (Run_stage Extract) after_ocr_world) [100] = Some row"
    "stored_ocr_text row = Inr (JStr page_one_text)"
    using q_stored by blast
  have e: "extract_by_rules (first_page_ocr_text page_one_text) =
      Inr (empty_fields\<lparr>drawing_no := Some str_2509_0017\<rparr>)"
    by (simp only: q_first q_rules)
  have n: "str_2509_0017 \<noteq> []" by (simp add: str_2509_0017_def)
  have v: "validate_issue_date (dict_of_fields (empty_fields\<lparr>drawing_no := Some str_2509_0017\<rparr>)) =
      ai_document"
    by (simp add: validate_rule_result empty_fields_def)
       (simp add: dict_of_fields_def ai_document_def)
  have h: "has_any_items (dict_of_fields (empty_fields\<lparr>drawing_no := Some str_2509_0017\<rparr>))"
    using n by (simp add: has_any_fields)
  have p: "page_one_text \<noteq> []" by (simp add: page_one_text_def)
  show ?thesis
    using h p by (simp add: process_ai_extraction_for_drawing_def r cascade_def Let_def e v)
qed

lemma q_update_fields: "update_fields ai_document = [(k_drawing_no, JStr str_2509_0017)]"
  by (simp add: update_fields_def normalize_ai_result_def column_keys_def normalized_value_def
        AI_KEY_TO_COLUMN_def ai_document_def dict_get_def key_defs label_defs str_2509_0017_def)

lemma q_extract: "extract_stage upsert_fails_env [100] after_ocr_world = after_extract_world"
proof -
  have a: "ai_document \<noteq> []" by (simp add: ai_document_def)
  have k: "k_ocr \<noteq> k_ai" "k_drawing_no \<noteq> k_extracted_json" by (simp_all add: key_defs)
  show ?thesis
    using a k
    by (simp only: extract_stage_def q_cascade)
       (simp add: save_extracted_fields_to_drawing_def q_update_fields update_drawing_def
          record_call_def after_ocr_world_def after_extract_world_def running_world_def)
qed

lemma q_search_text:
  "build_search_text upsert_fails_env [(k_ocr, ocr_document), (k_ai, JObj ai_document)] =
     Inr (page_one_text @ [10] @ str_2509_0017)"
  by (simp add: build_search_text_def or_default_def dict_get_def ocr_document_def
        ai_document_def search_keys_def tags_part_def key_defs page_one_text_def
        str_2509_0017_def strip_def isspace_def)

lemma q_vectorize:
  "vectorize_drawing_for_search upsert_fails_env [100]
     (record_call (Run_stage Vectorize) after_extract_world) =
   (Inl boom, after_extract_world\<lparr>calls := calls after_extract_world @
      [Run_stage Vectorize, Embed (page_one_text @ [10] @ str_2509_0017), Upsert [100] ]\<rparr>)"
proof -
  have d: "drawings after_extract_world [100] =
      Some \<lparr>drawing_status = str_processing, company_id = [99],
             extracted_json = JObj [(k_ocr, ocr_document), (k_ai, JObj ai_document)],
             columns = [k_drawing_no \<mapsto> JStr str_2509_0017]\<rparr>"
    by (simp add: after_extract_world_def)
  have e: "pinecone_configured upsert_fails_env" "embed upsert_fails_env = (\<lambda>t. Some [1])"
    "upsert upsert_fails_env = (\<lambda>i v. Inl boom)"
    by (simp_all add: upsert_fails_env_def)
  have n: "strip (page_one_text @ 10 # str_2509_0017) \<noteq> []"
    by (simp add: page_one_text_def str_2509_0017_def strip_def isspace_def)
  show ?thesis
    by (simp add: vectorize_drawing_for_search_def d e or_default_def vectorize_and_upsert_def
          q_search_text get_embedding_def n record_call_def Let_def)
qed

lemma q_job: "job_id queued_job = [106]" "job_drawing_id queued_job = [100]"
  "clock queued_world = 7"
  by (simp_all add: queued_job_def queued_world_def)

lemma q_after_extract:
  "jobs after_extract_world =
     [queued_job\<lparr>job_status := Running, job_step := Some str_convert, started_at := Some 7\<rparr>]"
  "clock after_extract_world = 7"
  "calls after_extract_world = [Run_stage Ocr, Download [112], Ocr_engine [1], Run_stage Extract]"
  by (simp_all add: after_extract_world_def after_ocr_world_def running_world_def)

lemma q_rasterize_claimed:
  "rasterize_stage upsert_fails_env (job_drawing_id queued_job)
     (set_processing (job_drawing_id queued_job)
        (update_job upsert_fails_env (job_id queued_job) Running (Some str_convert) None
           (Some (clock queued_world)) None queued_world)) =
   (Inr True, running_world)"
  by (simp only: q_job q_claim q_rasterize)

lemma q_stages:
  "after_extract_world =
     extract_stage upsert_fails_env (job_drawing_id queued_job)
       (ocr_stage upsert_fails_env (job_drawing_id queued_job) running_world)"
  by (simp only: q_job q_ocr q_extract)

lemma q_vectorize_job:
  "vectorize_drawing_for_search upsert_fails_env (job_drawing_id queued_job)
     (record_call (Run_stage Vectorize) after_extract_world) =
   (Inl boom, after_extract_world\<lparr>calls := calls after_extract_world @
      [Run_stage Vectorize, Embed (page_one_text @ [10] @ str_2509_0017), Upsert [100] ]\<rparr>)"
  by (simp only: q_job q_vectorize)

lemma q_cycle:
  "run_one_cycle upsert_fails_env queued_world =
     update_job upsert_fails_env [106] Success None None None (Some 7)
       (after_extract_world\<lparr>calls := calls after_extract_world @
          [Run_stage Vectorize, Embed (page_one_text @ [10] @ str_2509_0017), Upsert [100] ]\<rparr>)"
  using cycle_later_stages [OF q_fetch q_rasterize_claimed]
  by (simp add: q_job q_ocr q_extract vectorize_stage_def q_vectorize q_after_extract)

section \<open>Claims about the rule engine\<close>

lemma baseplate_scan:
  "scan_lines baseplate_lines (enumerate 0 baseplate_lines) empty_fields =
     Inr \<lparr>title = None, drawing_no = Some str_2509_0017, part_name = Some str_baseplate,
       material = Some str_ss400, surface_treatment = Some str_kurozome, process_note = None,
       issue_date = None, tags = []\<rparr>"
  by (simp add: scenario_defs empty_fields_def rule_eval)

lemma baseplate_heat_treatment_step:
  "rule_step baseplate_lines 3 lbl_netsu_shori r =
     Inr (if material r = Some str_ss400 then r else r\<lparr>process_note := Some str_ss400\<rparr>)"
  by (simp add: scenario_defs rule_eval)

lemma baseplate_extract:
  assumes "text_lines t = baseplate_lines"
  shows "extract_by_rules t =
      Inr \<lparr>title = None, drawing_no = Some str_2509_0017, part_name = Some str_baseplate,
        material = Some str_ss400, surface_treatment = Some str_kurozome,
        process_note = None, issue_date = None, tags = []\<rparr>"
proof -
  have ne: "text_lines t \<noteq> []"
    using assms by (simp add: baseplate_lines_def)
  then have "\<not> (\<forall>c \<in> set t. isspace c)"
    by (simp add: text_lines_empty_iff)
  then have st: "t \<noteq> []" "strip t \<noteq> []"
    by (auto simp add: strip_empty_iff)
  have m: "drawing_no_match str_2509_0017"
    by (simp add: str_2509_0017_def drawing_no_match_def isdigit_low)
  have n: "str_2509_0017 \<noteq> []"
    by (simp add: str_2509_0017_def)
  show ?thesis
    using st ne m n
    by (simp add: extract_by_rules_def assms [symmetric] Let_def)
       (simp add: assms baseplate_scan regex_drawing_no_def Let_def split: option.split)
qed

lemma baseplate_text_lines: "text_lines baseplate_text = baseplate_lines"
  by (simp add: scenario_defs label_defs text_lines_def splitlines_def islinebreak_def
        strip_def isspace_def)

text \<open>
  Claim C3. Every text whose trimmed non-empty lines are the eleven lines of the
  base-plate scenario is extracted to part_name = "beesupureeto", material = "SS400",
  surface_treatment = "kurozome", drawing_no = "2509-0017", and everything else null,
  process_note included. The second part says why process_note stays null: at the
  heat-treatment label (line 3) the candidate is "SS400", and it is dropped exactly when
  the material already resolved is "SS400"; with any other material it would be stored.
\<close>

theorem C3_baseplate_scenario:
  assumes "text_lines t = baseplate_lines"
  shows "extract_by_rules t =
      Inr \<lparr>title = None, drawing_no = Some str_2509_0017, part_name = Some str_baseplate,
        material = Some str_ss400, surface_treatment = Some str_kurozome,
        process_note = None, issue_date = None, tags = []\<rparr> \<and>
    rule_step baseplate_lines 3 lbl_netsu_shori r =
      Inr (if material r = Some str_ss400 then r else r\<lparr>process_note := Some str_ss400\<rparr>)"
  using baseplate_extract [OF assms] by (simp only: baseplate_heat_treatment_step simp_thms)

theorem C3_baseplate_scenario_witness:
  "text_lines baseplate_text = baseplate_lines \<and>
   extract_by_rules baseplate_text =
     Inr \<lparr>title = None, drawing_no = Some [50, 53, 48, 57, 45, 48, 48, 49, 55],
       part_name = Some [12505, 12540, 12473, 12503, 12524, 12540, 12488],
       material = Some [83, 83, 52, 48, 48], surface_treatment = Some [40658, 26579, 12417],
       process_note = None, issue_date = None, tags = []\<rparr> \<and>
   rule_step baseplate_lines 3 lbl_netsu_shori (empty_fields\<lparr>material := Some str_ss400\<rparr>) =
     Inr (empty_fields\<lparr>material := Some str_ss400\<rparr>)"
  using baseplate_text_lines
    C3_baseplate_scenario [OF baseplate_text_lines, of "empty_fields\<lparr>material := Some str_ss400\<rparr>"]
  by (simp add: scenario_defs)

text \<open>
  Claim C9. The rule engine is total: on every string it returns a record, never an
  exception; and on an empty or whitespace-only string the record has every scalar field
  null and no tags.
\<close>

theorem C9_rule_engine_total:
  "(\<exists>r. extract_by_rules t = Inr r) \<and>
   ((\<forall>c \<in> set t. isspace c) \<longrightarrow>
      extract_by_rules t =
        Inr \<lparr>title = None, drawing_no = None, part_name = None, material = None,
          surface_treatment = None, process_note = None, issue_date = None, tags = []\<rparr>)"
proof
  show "\<exists>r. extract_by_rules t = Inr r"
    by (rule extract_by_rules_total)
next
  show "(\<forall>c \<in> set t. isspace c) \<longrightarrow>
      extract_by_rules t =
        Inr \<lparr>title = None, drawing_no = None, part_name = None, material = None,
          surface_treatment = None, process_note = None, issue_date = None, tags = []\<rparr>"
    by (simp add: extract_by_rules_def strip_empty_iff [symmetric] empty_fields_def)
qed

theorem C9_rule_engine_total_witness:
  "list_all isspace [12288, 32, 13, 10, 9] \<and>
   extract_by_rules [12288, 32, 13, 10, 9] =
     Inr \<lparr>title = None, drawing_no = None, part_name = None, material = None,
       surface_treatment = None, process_note = None, issue_date = None, tags = []\<rparr> \<and>
   (\<exists>r. extract_by_rules baseplate_text = Inr r)"
  using C9_rule_engine_total [of "[12288, 32, 13, 10, 9]"] C9_rule_engine_total [of baseplate_text]
  by (simp add: isspace_def)

text \<open>
  Claim C8, as amended. After the line scan the whole text is searched for the
  drawing-number pattern. There is a candidate exactly when four digits, a hyphen and four
  digits start at some position of the text, and the candidate is the leftmost such nine
  characters. The candidate replaces the scan's drawing_no when that one is empty or does
  not begin with the pattern (the test is \<open>re.match\<close>: what follows the nine characters
  is not looked at). The scan's drawing_no is kept when it begins with the pattern, so in
  particular when it is four digits, a hyphen and four digits and nothing more; it is kept
  as well when there is no candidate. No other field changes.
\<close>

theorem C8_regex_fallback:
  assumes "scan_lines (text_lines t) (enumerate 0 (text_lines t)) empty_fields = Inr scanned"
  shows "\<exists>final. extract_by_rules t = Inr final \<and>
     final = scanned\<lparr>drawing_no := drawing_no final\<rparr> \<and>
     (drawing_no_search t = None \<longleftrightarrow> (\<forall>k < length t. \<not> drawing_no_match (drop k t))) \<and>
     (\<forall>v. drawing_no_match v \<longleftrightarrow> (\<exists>c rest. v = c @ rest \<and> is_drawing_no c)) \<and>
     (truthy (drawing_no scanned) \<and> is_drawing_no (the (drawing_no scanned)) \<longrightarrow>
        drawing_no final = drawing_no scanned) \<and>
     (case drawing_no_search t of
        None \<Rightarrow> drawing_no final = drawing_no scanned
      | Some candidate \<Rightarrow>
          length candidate = 9 \<and> drawing_no_match candidate \<and> is_drawing_no candidate \<and>
          (\<exists>pre post. t = pre @ candidate @ post \<and>
             (\<forall>k < length pre. \<not> drawing_no_match (drop k t))) \<and>
          (if truthy (drawing_no scanned) \<and> drawing_no_match (the (drawing_no scanned))
           then drawing_no final = drawing_no scanned
           else drawing_no final = Some candidate))"
proof -
  define final where "final = regex_drawing_no t scanned"
  have e: "extract_by_rules t = Inr final"
    unfolding final_def using assms by (rule extract_by_rules_unfold)
  have f: "final = scanned\<lparr>drawing_no := drawing_no final\<rparr>"
    by (simp add: final_def regex_drawing_no_def Let_def split: option.splits)
  have n: "drawing_no_search t = None \<longleftrightarrow> (\<forall>k < length t. \<not> drawing_no_match (drop k t))"
    by (rule drawing_no_search_None_iff)
  have p: "\<forall>v. drawing_no_match v \<longleftrightarrow> (\<exists>c rest. v = c @ rest \<and> is_drawing_no c)"
    using drawing_no_match_prefix by blast
  have k: "truthy (drawing_no scanned) \<and> is_drawing_no (the (drawing_no scanned)) \<longrightarrow>
        drawing_no final = drawing_no scanned"
    by (simp add: final_def regex_drawing_no_def Let_def is_drawing_no_def split: option.splits)
  have c: "case drawing_no_search t of
        None \<Rightarrow> drawing_no final = drawing_no scanned
      | Some candidate \<Rightarrow>
          length candidate = 9 \<and> drawing_no_match candidate \<and> is_drawing_no candidate \<and>
          (\<exists>pre post. t = pre @ candidate @ post \<and>
             (\<forall>k < length pre. \<not> drawing_no_match (drop k t))) \<and>
          (if truthy (drawing_no scanned) \<and> drawing_no_match (the (drawing_no scanned))
           then drawing_no final = drawing_no scanned
           else drawing_no final = Some candidate)"
  proof (cases "drawing_no_search t")
    case None
    then show ?thesis by (simp add: final_def regex_drawing_no_def)
  next
    case (Some candidate)
    from drawing_no_search_Some [OF Some]
    have "length candidate = 9 \<and> drawing_no_match candidate \<and> is_drawing_no candidate \<and>
          (\<exists>pre post. t = pre @ candidate @ post \<and>
             (\<forall>k < length pre. \<not> drawing_no_match (drop k t)))"
      unfolding is_drawing_no_def by blast
    then show ?thesis using Some by (simp add: final_def regex_drawing_no_def Let_def)
  qed
  show ?thesis
  proof (intro exI conjI)
    show "extract_by_rules t = Inr final" by (rule e)
  qed (rule f n p k c)+
qed

theorem C8_regex_fallback_witness:
  "scan_lines (text_lines fallback_text) (enumerate 0 (text_lines fallback_text)) empty_fields =
     Inr (empty_fields\<lparr>drawing_no := Some [88, 45, 49]\<rparr>) \<and>
   drawing_no_search fallback_text = Some [50, 53, 48, 57, 45, 48, 48, 49, 55] \<and>
   extract_by_rules fallback_text =
     Inr (empty_fields\<lparr>drawing_no := Some [50, 53, 48, 57, 45, 48, 48, 49, 55]\<rparr>) \<and>
   drawing_no_match [50, 53, 48, 57, 45, 48, 48, 49, 55, 65] \<and>
   extract_by_rules suffix_text =
     Inr (empty_fields\<lparr>drawing_no := Some [50, 53, 48, 57, 45, 48, 48, 49, 55, 65]\<rparr>)"
proof -
  have l: "text_lines fallback_text = [ [22259, 30058], [88, 45, 49], [78, 111, 32, 50, 53, 48, 57, 45, 48, 48, 49, 55] ]"
    by (simp add: fallback_text_def text_lines_def splitlines_def islinebreak_def strip_def isspace_def)
  have s: "scan_lines (text_lines fallback_text) (enumerate 0 (text_lines fallback_text)) empty_fields =
     Inr (empty_fields\<lparr>drawing_no := Some [88, 45, 49]\<rparr>)"
    unfolding l by (simp add: empty_fields_def rule_eval)
  have d: "drawing_no_search fallback_text = Some [50, 53, 48, 57, 45, 48, 48, 49, 55]"
    by (simp add: fallback_text_def drawing_no_match_def isdigit_low isdigit_mid)
  have n: "\<not> drawing_no_match [88, 45, 49]"
    by (simp add: drawing_no_match_def)
  have m: "drawing_no_match [50, 53, 48, 57, 45, 48, 48, 49, 55, 65]"
    by (simp add: drawing_no_match_def isdigit_low)
  have a: "extract_by_rules fallback_text =
     Inr (empty_fields\<lparr>drawing_no := Some [50, 53, 48, 57, 45, 48, 48, 49, 55]\<rparr>)"
    using C8_regex_fallback [OF s] d n by (auto simp add: empty_fields_def)
  have b: "extract_by_rules suffix_text =
     Inr (empty_fields\<lparr>drawing_no := Some [50, 53, 48, 57, 45, 48, 48, 49, 55, 65]\<rparr>)"
    using C8_regex_fallback [OF suffix_scan] suffix_search m by (auto simp add: empty_fields_def)
  show ?thesis
    using s d m a b by simp
qed

text \<open>
  The claim as stated replaces a scanned value that is not itself four digits, a hyphen
  and four digits. In the text "zuban / 2509-0017A / No 1111-2222" the scan finds
  "2509-0017A", which is not of that form, and the search has the candidate "2509-0017":
  the step as the claim words it gives "2509-0017", the source keeps "2509-0017A".
\<close>

theorem C8_prefix_match_counterexample:
  "scan_lines (text_lines suffix_text) (enumerate 0 (text_lines suffix_text)) empty_fields =
     Inr (empty_fields\<lparr>drawing_no := Some [50, 53, 48, 57, 45, 48, 48, 49, 55, 65]\<rparr>) \<and>
   drawing_no_search suffix_text = Some [50, 53, 48, 57, 45, 48, 48, 49, 55] \<and>
   \<not> is_drawing_no [50, 53, 48, 57, 45, 48, 48, 49, 55, 65] \<and>
   regex_drawing_no_exact suffix_text
       (empty_fields\<lparr>drawing_no := Some [50, 53, 48, 57, 45, 48, 48, 49, 55, 65]\<rparr>) =
     empty_fields\<lparr>drawing_no := Some [50, 53, 48, 57, 45, 48, 48, 49, 55]\<rparr> \<and>
   extract_by_rules suffix_text =
     Inr (empty_fields\<lparr>drawing_no := Some [50, 53, 48, 57, 45, 48, 48, 49, 55, 65]\<rparr>) \<and>
   extract_by_rules suffix_text \<noteq>
     Inr (regex_drawing_no_exact suffix_text
       (empty_fields\<lparr>drawing_no := Some [50, 53, 48, 57, 45, 48, 48, 49, 55, 65]\<rparr>))"
proof -
  have m: "drawing_no_match [50, 53, 48, 57, 45, 48, 48, 49, 55, 65]"
    by (simp add: drawing_no_match_def isdigit_low)
  have i: "\<not> is_drawing_no [50, 53, 48, 57, 45, 48, 48, 49, 55, 65]"
    by (simp add: is_drawing_no_def)
  have x: "extract_by_rules suffix_text =
     Inr (empty_fields\<lparr>drawing_no := Some [50, 53, 48, 57, 45, 48, 48, 49, 55, 65]\<rparr>)"
    using extract_by_rules_unfold [OF suffix_scan] suffix_search m
    by (simp add: regex_drawing_no_def)
  have y: "regex_drawing_no_exact suffix_text
       (empty_fields\<lparr>drawing_no := Some [50, 53, 48, 57, 45, 48, 48, 49, 55, 65]\<rparr>) =
     empty_fields\<lparr>drawing_no := Some [50, 53, 48, 57, 45, 48, 48, 49, 55]\<rparr>"
    using suffix_search i by (simp add: regex_drawing_no_exact_def)
  have z: "empty_fields\<lparr>drawing_no := Some [50, 53, 48, 57, 45, 48, 48, 49, 55, 65]\<rparr> \<noteq>
      empty_fields\<lparr>drawing_no := Some [50, 53, 48, 57, 45, 48, 48, 49, 55]\<rparr>"
    by (simp add: empty_fields_def)
  show ?thesis
    using suffix_scan suffix_search i x y z by simp
qed

section \<open>Claim about the first-page restriction\<close>

text \<open>
  Claim C10, as amended. The first-page restriction is applied before rule extraction and
  the generative fallback. It returns the stripped prefix of the text before the first
  occurrence of the first separator, in the order \<open>[<page> 2]\<close>, \<open>[<page> 3]\<close>,
  \<open>[<page> 4]\<close>, \<open>[<page> 5]\<close>, that occurs in the text (to occur is to stand
  somewhere in the text); that prefix ends where the separator first starts. For a
  drawing whose stored OCR text is the non-empty string \<open>t\<close>, the rule engine is run on
  the restricted text and the fallback is given the restricted text: two stored texts with
  the same first page have the same outcome, and every text handed to the generative
  model, with an image or without, is the \<open>ocr_text_for_ai\<close> of the restricted text.
  When none of the four separators occurs, whatever other page markers the text has, the
  text is returned unchanged, and the whole of it is what the rule engine and the
  fallback are given.
\<close>

theorem C10_first_page:
  "first_page_ocr_text t =
     (case find (\<lambda>sep. contains sep t) PAGE_MARKERS of
        None \<Rightarrow> t
      | Some sep \<Rightarrow> strip (split_head sep t)) \<and>
   (\<forall>sep \<in> set PAGE_MARKERS. contains sep t \<longrightarrow>
      (\<exists>rest. t = split_head sep t @ sep @ rest) \<and>
      (\<forall>k < length (split_head sep t). \<not> startswith (drop k t) sep)) \<and>
   (\<forall>sep. contains sep t \<longleftrightarrow> (\<exists>pre post. t = pre @ sep @ post)) \<and>
   ((\<forall>sep \<in> set PAGE_MARKERS. \<not> contains sep t) \<longrightarrow> first_page_ocr_text t = t) \<and>
   (drawings w d = Some row \<and> stored_ocr_text row = Inr (JStr t) \<and> t \<noteq> [] \<longrightarrow>
      process_ai_extraction_for_drawing en d w = cascade en d t w) \<and>
   cascade en d t w =
     (case extract_by_rules (first_page_ocr_text t) of
        Inl e \<Rightarrow> (Inl e, w)
      | Inr rule_result \<Rightarrow>
          if has_any_items (dict_of_fields rule_result)
          then (Inr (JObj (validate_issue_date (dict_of_fields rule_result))), w)
          else generative_fallback en d (first_page_ocr_text t) w) \<and>
   (first_page_ocr_text t' = first_page_ocr_text t \<longrightarrow> cascade en d t' w = cascade en d t w) \<and>
   (\<forall>res w'. cascade en d t w = (res, w') \<longrightarrow>
      (\<exists>new. calls w' = calls w @ new \<and>
         list_all (ocr_text_for_ai_of (first_page_ocr_text t)) (prompts new))) \<and>
   ((\<forall>sep \<in> set PAGE_MARKERS. \<not> contains sep t) \<longrightarrow>
      cascade en d t w =
        (case extract_by_rules t of
           Inl e \<Rightarrow> (Inl e, w)
         | Inr rule_result \<Rightarrow>
             if has_any_items (dict_of_fields rule_result)
             then (Inr (JObj (validate_issue_date (dict_of_fields rule_result))), w)
             else generative_fallback en d t w) \<and>
      (\<forall>res w'. cascade en d t w = (res, w') \<longrightarrow>
         (\<exists>new. calls w' = calls w @ new \<and>
            list_all (ocr_text_for_ai_of t) (prompts new))))"
proof (intro conjI)
  show "first_page_ocr_text t =
     (case find (\<lambda>sep. contains sep t) PAGE_MARKERS of
        None \<Rightarrow> t
      | Some sep \<Rightarrow> strip (split_head sep t))"
    by (rule first_page_find)
next
  show "\<forall>sep \<in> set PAGE_MARKERS. contains sep t \<longrightarrow>
      (\<exists>rest. t = split_head sep t @ sep @ rest) \<and>
      (\<forall>k < length (split_head sep t). \<not> startswith (drop k t) sep)"
    using split_head_decompose split_head_first by blast
next
  show "\<forall>sep. contains sep t \<longleftrightarrow> (\<exists>pre post. t = pre @ sep @ post)"
    using contains_iff by blast
next
  show "(\<forall>sep \<in> set PAGE_MARKERS. \<not> contains sep t) \<longrightarrow> first_page_ocr_text t = t"
    using first_page_no_marker by blast
next
  show "drawings w d = Some row \<and> stored_ocr_text row = Inr (JStr t) \<and> t \<noteq> [] \<longrightarrow>
      process_ai_extraction_for_drawing en d w = cascade en d t w"
    using process_stored_text by blast
next
  show c: "cascade en d t w =
     (case extract_by_rules (first_page_ocr_text t) of
        Inl e \<Rightarrow> (Inl e, w)
      | Inr rule_result \<Rightarrow>
          if has_any_items (dict_of_fields rule_result)
          then (Inr (JObj (validate_issue_date (dict_of_fields rule_result))), w)
          else generative_fallback en d (first_page_ocr_text t) w)"
    by (simp add: cascade_def Let_def)
next
  show "first_page_ocr_text t' = first_page_ocr_text t \<longrightarrow> cascade en d t' w = cascade en d t w"
    by (simp add: cascade_def Let_def)
next
  show "\<forall>res w'. cascade en d t w = (res, w') \<longrightarrow>
      (\<exists>new. calls w' = calls w @ new \<and>
         list_all (ocr_text_for_ai_of (first_page_ocr_text t)) (prompts new))"
    using cascade_calls by blast
next
  show "(\<forall>sep \<in> set PAGE_MARKERS. \<not> contains sep t) \<longrightarrow>
      cascade en d t w =
        (case extract_by_rules t of
           Inl e \<Rightarrow> (Inl e, w)
         | Inr rule_result \<Rightarrow>
             if has_any_items (dict_of_fields rule_result)
             then (Inr (JObj (validate_issue_date (dict_of_fields rule_result))), w)
             else generative_fallback en d t w) \<and>
      (\<forall>res w'. cascade en d t w = (res, w') \<longrightarrow>
         (\<exists>new. calls w' = calls w @ new \<and>
            list_all (ocr_text_for_ai_of t) (prompts new)))"
  proof
    assume "\<forall>sep \<in> set PAGE_MARKERS. \<not> contains sep t"
    then have f: "first_page_ocr_text t = t" by (rule first_page_no_marker)
    show "cascade en d t w =
        (case extract_by_rules t of
           Inl e \<Rightarrow> (Inl e, w)
         | Inr rule_result \<Rightarrow>
             if has_any_items (dict_of_fields rule_result)
             then (Inr (JObj (validate_issue_date (dict_of_fields rule_result))), w)
             else generative_fallback en d t w) \<and>
      (\<forall>res w'. cascade en d t w = (res, w') \<longrightarrow>
         (\<exists>new. calls w' = calls w @ new \<and>
            list_all (ocr_text_for_ai_of t) (prompts new)))"
      using cascade_calls [of en d t w] f by (simp add: cascade_def Let_def)
  qed
qed

theorem C10_first_page_witness:
  "contains [91, 12506, 12540, 12472, 32, 50, 93] two_page_text \<and>
   split_head [91, 12506, 12540, 12472, 32, 50, 93] two_page_text =
     [91, 12506, 12540, 12472, 32, 49, 93, 10, 65, 10, 10] \<and>
   first_page_ocr_text two_page_text = [91, 12506, 12540, 12472, 32, 49, 93, 10, 65] \<and>
   process_ai_extraction_for_drawing echo_env [100] two_page_world =
     (Inr (JObj [(k_title, JStr [91, 12506, 12540, 12472, 32, 49, 93, 10, 65])]),
      two_page_world\<lparr>calls := [Text_only [91, 12506, 12540, 12472, 32, 49, 93, 10, 65] ]\<rparr>) \<and>
   list_all (\<lambda>sep. \<not> contains sep other_pages_text) PAGE_MARKERS \<and>
   first_page_ocr_text other_pages_text = other_pages_text \<and>
   process_ai_extraction_for_drawing echo_env [100] other_pages_world =
     (Inr (JObj [(k_title, JStr other_pages_text)]),
      other_pages_world\<lparr>calls := [Text_only other_pages_text]\<rparr>)"
proof -
  have f: "find (\<lambda>sep. contains sep two_page_text) PAGE_MARKERS = Some [91, 12506, 12540, 12472, 32, 50, 93]"
    by (simp add: PAGE_MARKERS_def two_page_text_def startswith_def)
  have h: "split_head [91, 12506, 12540, 12472, 32, 50, 93] two_page_text =
     [91, 12506, 12540, 12472, 32, 49, 93, 10, 65, 10, 10]"
    by (simp add: two_page_text_def startswith_def)
  have c: "contains [91, 12506, 12540, 12472, 32, 50, 93] two_page_text"
    by (simp add: two_page_text_def startswith_def)
  have s: "strip [91, 12506, 12540, 12472, 32, 49, 93, 10, 65, 10, 10] =
     [91, 12506, 12540, 12472, 32, 49, 93, 10, 65]"
    by (simp add: strip_def isspace_def)
  have e: "\<not> has_any_items (dict_of_fields empty_fields)"
    by (simp add: has_any_fields empty_fields_def)
  have d2: "drawings two_page_world [100] = Some two_page_drawing"
    "files two_page_world = []" "calls two_page_world = []" "two_page_text \<noteq> []"
    by (simp_all add: two_page_world_def baseplate_world_def two_page_text_def)
  have d6: "drawings other_pages_world [100] = Some other_pages_drawing"
    "files other_pages_world = []" "calls other_pages_world = []" "other_pages_text \<noteq> []"
    by (simp_all add: other_pages_world_def baseplate_world_def other_pages_text_def)
  have n: "\<forall>sep \<in> set PAGE_MARKERS. \<not> contains sep other_pages_text"
    using other_pages_no_marker by (simp add: list_all_iff)
  note two = C10_first_page [where t = two_page_text and w = two_page_world and d = "[100]"
      and row = two_page_drawing and en = echo_env and t' = two_page_text]
  note six = C10_first_page [where t = other_pages_text and w = other_pages_world and d = "[100]"
      and row = other_pages_drawing and en = echo_env and t' = other_pages_text]
  have p1: "first_page_ocr_text two_page_text = [91, 12506, 12540, 12472, 32, 49, 93, 10, 65]"
    using two f h s by simp
  have r1: "process_ai_extraction_for_drawing echo_env [100] two_page_world =
     (Inr (JObj [(k_title, JStr [91, 12506, 12540, 12472, 32, 49, 93, 10, 65])]),
      two_page_world\<lparr>calls := [Text_only [91, 12506, 12540, 12472, 32, 49, 93, 10, 65] ]\<rparr>)"
  proof -
    have "process_ai_extraction_for_drawing echo_env [100] two_page_world =
        cascade echo_env [100] two_page_text two_page_world"
      using two d2 stored_two_page by blast
    also have "\<dots> =
        (case extract_by_rules (first_page_ocr_text two_page_text) of
           Inl e \<Rightarrow> (Inl e, two_page_world)
         | Inr rule_result \<Rightarrow>
             if has_any_items (dict_of_fields rule_result)
             then (Inr (JObj (validate_issue_date (dict_of_fields rule_result))), two_page_world)
             else generative_fallback echo_env [100] (first_page_ocr_text two_page_text)
                    two_page_world)"
      using two by blast
    also have "\<dots> = generative_fallback echo_env [100]
        [91, 12506, 12540, 12472, 32, 49, 93, 10, 65] two_page_world"
      by (simp add: p1 first_page_rules e)
    finally show ?thesis
      by (simp add: echo_fallback [OF first_page_preprocess] d2)
  qed
  have p6: "first_page_ocr_text other_pages_text = other_pages_text"
    using six n by blast
  have r6: "process_ai_extraction_for_drawing echo_env [100] other_pages_world =
     (Inr (JObj [(k_title, JStr other_pages_text)]),
      other_pages_world\<lparr>calls := [Text_only other_pages_text]\<rparr>)"
  proof -
    have "process_ai_extraction_for_drawing echo_env [100] other_pages_world =
        cascade echo_env [100] other_pages_text other_pages_world"
      using six d6 stored_other_pages by blast
    also have "\<dots> =
        (case extract_by_rules other_pages_text of
           Inl e \<Rightarrow> (Inl e, other_pages_world)
         | Inr rule_result \<Rightarrow>
             if has_any_items (dict_of_fields rule_result)
             then (Inr (JObj (validate_issue_date (dict_of_fields rule_result))), other_pages_world)
             else generative_fallback echo_env [100] other_pages_text other_pages_world)"
      using six n by blast
    also have "\<dots> = generative_fallback echo_env [100] other_pages_text other_pages_world"
      by (simp add: other_pages_rules e)
    finally show ?thesis
      by (simp add: echo_fallback [OF other_pages_preprocess] d6)
  qed
  show ?thesis
    using c h p1 r1 other_pages_no_marker p6 r6 by blast
qed

text \<open>
  The claim as stated takes the marker that occurs first in the text. In
  "A[<page> 3]B[<page> 2]C" that is the marker of page 3 and the prefix before it is
  "A"; the source looks for \<open>[<page> 2]\<close> first and returns "A[<page> 3]B".
\<close>

theorem C10_first_page_counterexample:
  "first_page_ocr_text unordered_text = [65, 91, 12506, 12540, 12472, 32, 51, 93, 66] \<and>
   first_page_by_position unordered_text = [65] \<and>
   first_page_ocr_text unordered_text \<noteq> first_page_by_position unordered_text"
  by (simp add: first_page_ocr_text_def first_page_by_position_def PAGE_MARKERS_def
        unordered_text_def startswith_def strip_def isspace_def)

section \<open>Claims about the extraction cascade and its persistence\<close>

text \<open>
  Claim C2. Whenever the stored OCR text is a string and the rule engine, run on its
  first page, returns a record with a non-empty scalar field or a non-empty tags list,
  the cascade returns that record (its issue_date nulled when \<open>strptime\<close> rejects it)
  and leaves the state as it found it, whatever the collaborators would have done: no
  call is recorded, neither of the multimodal nor of the text-only extraction.
\<close>

theorem C2_rules_first:
  assumes "drawings w drawing_id = Some row"
    and "stored_ocr_text row = Inr (JStr ocr_text)"
    and "extract_by_rules (first_page_ocr_text ocr_text) = Inr rule_result"
    and "truthy (title rule_result) \<or> truthy (drawing_no rule_result) \<or>
         truthy (part_name rule_result) \<or> truthy (material rule_result) \<or>
         truthy (surface_treatment rule_result) \<or> truthy (process_note rule_result) \<or>
         truthy (issue_date rule_result) \<or> tags rule_result \<noteq> []"
  shows "process_ai_extraction_for_drawing en drawing_id w =
           (Inr (JObj (validate_issue_date (dict_of_fields rule_result))), w)"
proof -
  have h: "has_any_items (dict_of_fields rule_result)"
    using assms(4) by (simp only: has_any_fields)
  have "ocr_text \<noteq> []"
  proof
    assume "ocr_text = []"
    then have "rule_result = empty_fields"
      using assms(3) by (simp add: first_page_ocr_text_def extract_by_rules_def)
    then show False using assms(4) by (simp add: empty_fields_def)
  qed
  then show ?thesis
    using assms(1,2,3) h
    by (simp add: process_ai_extraction_for_drawing_def cascade_def)
qed

theorem C2_rules_first_witness:
  "process_ai_extraction_for_drawing failing_env [100] baseplate_world =
     (Inr (JObj [(k_title, JNull), (k_drawing_no, JStr [50, 53, 48, 57, 45, 48, 48, 49, 55]),
        (k_part_name, JStr [12505, 12540, 12473, 12503, 12524, 12540, 12488]),
        (k_material, JStr [83, 83, 52, 48, 48]),
        (k_surface_treatment, JStr [40658, 26579, 12417]), (k_process_note, JNull),
        (k_issue_date, JNull), (k_tags, JList [])]), baseplate_world) \<and>
   calls baseplate_world = []"
proof -
  have d: "drawings baseplate_world [100] = Some baseplate_drawing"
    by (simp add: baseplate_world_def)
  have o: "stored_ocr_text baseplate_drawing = Inr (JStr baseplate_text)"
    by (simp add: stored_ocr_text_def baseplate_drawing_def key_defs)
  have f: "first_page_ocr_text baseplate_text = baseplate_text"
    by (simp add: first_page_ocr_text_def PAGE_MARKERS_def baseplate_text_def startswith_def)
  have e: "extract_by_rules (first_page_ocr_text baseplate_text) =
      Inr \<lparr>title = None, drawing_no = Some str_2509_0017, part_name = Some str_baseplate,
        material = Some str_ss400, surface_treatment = Some str_kurozome,
        process_note = None, issue_date = None, tags = []\<rparr>"
    unfolding f by (rule baseplate_extract [OF baseplate_text_lines])
  show ?thesis
    using C2_rules_first [OF d o e, of failing_env]
    by (simp add: validate_issue_date_def dict_get_def dict_of_fields_def key_defs
          baseplate_world_def str_ss400_def str_baseplate_def str_2509_0017_def
          str_kurozome_def)
qed

lemma sample_normalized:
  "normalize_ai_result sample_ai_result =
     [(k_part_name, JStr str_baseplate), (k_material, JStr str_ss400), (k_tags, JList [])]"
  by (simp add: normalize_ai_result_def column_keys_def normalized_value_def
        AI_KEY_TO_COLUMN_def sample_ai_result_def dict_get_def key_defs label_defs
        str_baseplate_def str_ss400_def)

text \<open>
  Claim C6. For each of the eight columns: the normalized value is the extracted value,
  or that of the first Japanese alias that has one, and is absent when that is null or
  empty (tags: when it is not a list); the column enters the update exactly when the
  normalized value is true in Python, so never when it is null, the empty string or
  the empty list; and after the save the column holds the normalized value when it
  entered the update, and what it held before otherwise.
\<close>

theorem C6_only_nonempty_values_persisted:
  assumes "drawings w drawing_id = Some row" and "k \<in> set column_keys"
  shows
    "dict_get (normalize_ai_result ai_result) k =
       (if normalized_value ai_result k \<noteq> JNull \<and> normalized_value ai_result k \<noteq> JStr [] \<and>
           (k = k_tags \<longrightarrow> is_list (normalized_value ai_result k))
        then normalized_value ai_result k else JNull) \<and>
     map_of (update_fields ai_result) k =
       (if py_bool (dict_get (normalize_ai_result ai_result) k)
        then Some (dict_get (normalize_ai_result ai_result) k) else None) \<and>
     (py_bool (dict_get (normalize_ai_result ai_result) k) \<longrightarrow>
        dict_get (normalize_ai_result ai_result) k \<notin> {JNull, JStr [], JList []} \<and>
        (k = k_tags \<longrightarrow> is_list (dict_get (normalize_ai_result ai_result) k))) \<and>
     (\<exists>row'. drawings (save_extracted_fields_to_drawing drawing_id ai_result w) drawing_id = Some row' \<and>
        columns row' k =
          (if py_bool (dict_get (normalize_ai_result ai_result) k)
           then Some (dict_get (normalize_ai_result ai_result) k) else columns row k))"
proof (intro conjI)
  show "dict_get (normalize_ai_result ai_result) k =
       (if normalized_value ai_result k \<noteq> JNull \<and> normalized_value ai_result k \<noteq> JStr [] \<and>
           (k = k_tags \<longrightarrow> is_list (normalized_value ai_result k))
        then normalized_value ai_result k else JNull)"
    using assms(2)
    by (auto simp add: normalize_ai_result_def dict_get_normalize_keys column_keys_distinct)
next
  show "map_of (update_fields ai_result) k =
       (if py_bool (dict_get (normalize_ai_result ai_result) k)
        then Some (dict_get (normalize_ai_result ai_result) k) else None)"
    using assms(2) by (rule map_of_update_fields)
next
  show "py_bool (dict_get (normalize_ai_result ai_result) k) \<longrightarrow>
        dict_get (normalize_ai_result ai_result) k \<notin> {JNull, JStr [], JList []} \<and>
        (k = k_tags \<longrightarrow> is_list (dict_get (normalize_ai_result ai_result) k))"
    using normalized_tags_list [of ai_result] by auto
next
  show "\<exists>row'. drawings (save_extracted_fields_to_drawing drawing_id ai_result w) drawing_id = Some row' \<and>
        columns row' k =
          (if py_bool (dict_get (normalize_ai_result ai_result) k)
           then Some (dict_get (normalize_ai_result ai_result) k) else columns row k)"
    using columns_after_save [OF assms, of ai_result] map_of_update_fields [OF assms(2), of ai_result]
    by auto
qed

theorem C6_only_nonempty_values_persisted_witness:
  "update_fields sample_ai_result = [(k_part_name, JStr str_baseplate), (k_material, JStr str_ss400)] \<and>
   (\<exists>row'. drawings (save_extracted_fields_to_drawing [100] sample_ai_result titled_world) [100] = Some row' \<and>
      columns row' k_title = Some (JStr [111, 108, 100]) \<and>
      columns row' k_material = Some (JStr str_ss400))"
proof -
  have d: "drawings titled_world [100] = Some (baseplate_drawing\<lparr>columns :=
        [k_title \<mapsto> JStr [111, 108, 100],
         k_drawing_no \<mapsto> JStr [48, 48, 48, 49, 45, 48, 48, 48, 49] ]\<rparr>)"
    by (simp add: titled_world_def)
  have t: "k_title \<in> set column_keys" and m: "k_material \<in> set column_keys"
    by (simp_all add: column_keys_def)
  have u: "update_fields sample_ai_result = [(k_part_name, JStr str_baseplate), (k_material, JStr str_ss400)]"
    by (simp add: update_fields_def sample_normalized column_keys_def dict_get_def key_defs
          str_baseplate_def str_ss400_def)
  show ?thesis
    using C6_only_nonempty_values_persisted [OF d t, of sample_ai_result]
      C6_only_nonempty_values_persisted [OF d m, of sample_ai_result] u
    by (auto simp add: sample_normalized dict_get_def key_defs str_ss400_def)
qed

text \<open>
  Claim C5 fails on the code. The date check of the cascade reads the key \<open>issue_date\<close>
  only. An answer of the generative model that carries the date under the Japanese key
  shutsuzubi passes the cascade unchanged, \<open>_normalize_ai_result\<close> maps that key to
  \<open>issue_date\<close>, and the save writes "2024/01/01" into the column, a value that
  \<open>strptime\<close> rejects and that the same check nulls under the key \<open>issue_date\<close>.
\<close>

theorem C5_alias_date_persisted:
  "process_ai_extraction_for_drawing alias_env [100] plain_world =
     (Inr (JObj [(lbl_shutsuzubi, JStr slash_date)]),
      plain_world\<lparr>calls := [Text_only [97, 98, 99] ]\<rparr>) \<and>
   update_fields [(lbl_shutsuzubi, JStr slash_date)] = [(k_issue_date, JStr slash_date)] \<and>
   (\<exists>row'. drawings (save_extracted_fields_to_drawing [100]
                        [(lbl_shutsuzubi, JStr slash_date)] plain_world) [100] = Some row' \<and>
      columns row' k_issue_date = Some (JStr slash_date)) \<and>
   \<not> strptime_ymd slash_date \<and>
   validate_issue_date [(k_issue_date, JStr slash_date)] = [(k_issue_date, JNull)]"
proof (intro conjI)
  have f: "first_page_ocr_text [97, 98, 99] = [97, 98, 99]"
    by (simp add: first_page_ocr_text_def PAGE_MARKERS_def startswith_def)
  have h: "\<not> has_any_items (dict_of_fields empty_fields)"
    by (simp add: has_any_fields empty_fields_def)
  have m: "multimodal_attempt alias_env [100] [97, 98, 99] plain_world = (JObj [], plain_world)"
    by (simp add: multimodal_attempt_def files_of_def order_by_page_no_def plain_world_def
          baseplate_world_def)
  have g: "generative_fallback alias_env [100] [97, 98, 99] plain_world =
      (Inr (JObj [(lbl_shutsuzubi, JStr slash_date)]),
       plain_world\<lparr>calls := [Text_only [97, 98, 99] ]\<rparr>)"
  proof -
    have t: "text_only alias_env = (\<lambda>t. Inr (JObj [(lbl_shutsuzubi, JStr slash_date)]))"
      by (simp add: alias_env_def failing_env_def)
    have c: "calls plain_world = []"
      by (simp add: plain_world_def baseplate_world_def)
    have v: "validate_issue_date [(lbl_shutsuzubi, JStr slash_date)] = [(lbl_shutsuzubi, JStr slash_date)]"
      by (simp add: validate_issue_date_def dict_get_def key_defs label_defs)
    have u: "unusable (JObj [(lbl_shutsuzubi, JStr slash_date)]) = Inr False"
      by (simp add: unusable_def key_defs label_defs slash_date_def)
    have u0: "unusable (JObj []) = Inr True"
      by (simp add: unusable_def)
    show ?thesis
      by (simp add: generative_fallback_def Let_def plain_text_preprocess m t c v u u0
            record_call_def)
  qed
  show "process_ai_extraction_for_drawing alias_env [100] plain_world =
     (Inr (JObj [(lbl_shutsuzubi, JStr slash_date)]),
      plain_world\<lparr>calls := [Text_only [97, 98, 99] ]\<rparr>)"
  proof -
    have c: "cascade alias_env [100] [97, 98, 99] plain_world =
      (Inr (JObj [(lbl_shutsuzubi, JStr slash_date)]),
       plain_world\<lparr>calls := [Text_only [97, 98, 99] ]\<rparr>)"
      using h by (simp add: cascade_def Let_def f plain_text_rules g)
    obtain row where d: "drawings plain_world [100] = Some row"
      and o: "stored_ocr_text row = Inr (JStr [97, 98, 99])"
      by (simp add: plain_world_def baseplate_world_def baseplate_drawing_def
            stored_ocr_text_def key_defs)
    show ?thesis
      by (simp add: process_ai_extraction_for_drawing_def d o c)
  qed
next
  show "update_fields [(lbl_shutsuzubi, JStr slash_date)] = [(k_issue_date, JStr slash_date)]"
    by (simp add: update_fields_def normalize_ai_result_def column_keys_def
          normalized_value_def AI_KEY_TO_COLUMN_def dict_get_def key_defs label_defs
          slash_date_def)
next
  have u: "update_fields [(lbl_shutsuzubi, JStr slash_date)] = [(k_issue_date, JStr slash_date)]"
    by (simp add: update_fields_def normalize_ai_result_def column_keys_def
          normalized_value_def AI_KEY_TO_COLUMN_def dict_get_def key_defs label_defs
          slash_date_def)
  obtain row where d: "drawings plain_world [100] = Some row"
    by (simp add: plain_world_def baseplate_world_def)
  have k: "k_issue_date \<in> set column_keys"
    by (simp add: column_keys_def)
  show "\<exists>row'. drawings (save_extracted_fields_to_drawing [100]
                        [(lbl_shutsuzubi, JStr slash_date)] plain_world) [100] = Some row' \<and>
      columns row' k_issue_date = Some (JStr slash_date)"
    using columns_after_save [OF d k, of "[(lbl_shutsuzubi, JStr slash_date)]"]
    by (simp add: u)
next
  show "\<not> strptime_ymd slash_date" by (rule slash_date_rejected)
next
  show "validate_issue_date [(k_issue_date, JStr slash_date)] = [(k_issue_date, JNull)]"
    using slash_date_rejected
    by (simp add: validate_issue_date_def dict_get_def) (simp add: slash_date_def)
qed

section \<open>Claim about the OCR stage\<close>

text \<open>
  Claim C4. The result of the OCR stage (the concatenated text and the page list) is a
  function of the page images and of the answers of the download and of the OCR engine
  alone: each page image has its entry, its \<open>[<page> N]\<close> block is part of the
  concatenated text when its text is not empty, and changing which database writes fail
  changes nothing of it. A page whose download or OCR call raises has the entry with the
  empty text, and the stage goes on: it returns a result for every state.
\<close>

theorem C4_ocr_text_survives:
  "fst (process_ocr_for_drawing en d w) =
     (join [10, 10] (map page_block (filter (\<lambda>p. snd p \<noteq> [])
        (map (page_entry en) (order_by_page_no (files_of w d Page_image))))),
      map (page_entry en) (order_by_page_no (files_of w d Page_image))) \<and>
   fst (process_ocr_for_drawing (en\<lparr>db_write_fails := fails, db_write_error := err\<rparr>) d w) =
     fst (process_ocr_for_drawing en d w) \<and>
   (\<forall>f \<in> set (files_of w d Page_image).
      (page_no_of f, page_text en f) \<in> set (snd (fst (process_ocr_for_drawing en d w))) \<and>
      (page_text en f \<noteq> [] \<longrightarrow>
         contains (page_header (page_no_of f) @ page_text en f)
           (fst (fst (process_ocr_for_drawing en d w)))) \<and>
      ((\<exists>e. download en (file_gcs_path f) = Inl e) \<longrightarrow> page_text en f = []) \<and>
      (\<forall>b e. download en (file_gcs_path f) = Inr b \<and> ocr_engine en b = Inl e \<longrightarrow>
         page_text en f = []))"
proof (intro conjI ballI)
  show r: "fst (process_ocr_for_drawing en d w) =
     (join [10, 10] (map page_block (filter (\<lambda>p. snd p \<noteq> [])
        (map (page_entry en) (order_by_page_no (files_of w d Page_image))))),
      map (page_entry en) (order_by_page_no (files_of w d Page_image)))"
    by (rule process_ocr_result)
  show "fst (process_ocr_for_drawing (en\<lparr>db_write_fails := fails, db_write_error := err\<rparr>) d w) =
     fst (process_ocr_for_drawing en d w)"
    by (simp only: process_ocr_result page_entry_db_independent)
  fix f assume f: "f \<in> set (files_of w d Page_image)"
  have s: "set (order_by_page_no fs) = set fs" for fs
  proof -
    have i: "set (insert_by_page_no g gs) = insert g (set gs)" for g gs
      by (induction gs) auto
    show ?thesis
      unfolding order_by_page_no_def by (induction fs) (simp_all add: i)
  qed
  have m: "f \<in> set (order_by_page_no (files_of w d Page_image))"
    using f by (simp add: s)
  show "(page_no_of f, page_text en f) \<in> set (snd (fst (process_ocr_for_drawing en d w)))"
    using m by (auto simp add: r page_entry_def image_iff)
  show "page_text en f \<noteq> [] \<longrightarrow>
         contains (page_header (page_no_of f) @ page_text en f)
           (fst (fst (process_ocr_for_drawing en d w)))"
  proof
    assume n: "page_text en f \<noteq> []"
    have "page_block (page_entry en f) \<in> set (map page_block (filter (\<lambda>p. snd p \<noteq> [])
        (map (page_entry en) (order_by_page_no (files_of w d Page_image)))))"
      using m n by (auto simp add: page_entry_def image_iff)
    then show "contains (page_header (page_no_of f) @ page_text en f)
           (fst (fst (process_ocr_for_drawing en d w)))"
      using contains_join [of "page_block (page_entry en f)"]
      by (simp add: r page_block_def page_entry_def)
  qed
  show "(\<exists>e. download en (file_gcs_path f) = Inl e) \<longrightarrow> page_text en f = []"
    by (auto simp add: page_text_def)
  show "\<forall>b e. download en (file_gcs_path f) = Inr b \<and> ocr_engine en b = Inl e \<longrightarrow>
         page_text en f = []"
    by (auto simp add: page_text_def)
qed

theorem C4_ocr_text_survives_witness:
  "list_all (db_write_fails ocr_env) [Update_size [49], Delete_tokens [49], Insert_batch [49] 0] \<and>
   download ocr_env [113] = Inl boom \<and>
   fst (process_ocr_for_drawing ocr_env [100] ocr_world) =
     ([91, 12506, 12540, 12472, 32, 49, 93, 10, 65], [(1, [65]), (2, [])])"
proof -
  have e: "map (page_entry ocr_env) (rev two_page_files) = [(1, [65]), (2, [])]"
    by (simp add: page_entry_def page_text_def page_no_of_def two_page_files_def ocr_env_def
          failing_env_def)
  have h: "page_block (1, [65]) = [91, 12506, 12540, 12472, 32, 49, 93, 10, 65]"
    by (simp add: page_block_def page_header_def page_word_def str_of_int_def str_of_nat.simps)
  have c: "db_write_fails ocr_env = (\<lambda>op. True)" "download ocr_env [113] = Inl boom"
    by (simp_all add: ocr_env_def failing_env_def)
  show ?thesis
    using C4_ocr_text_survives [of ocr_env "[100]" ocr_world]
    by (simp add: ocr_world_pages e h c)
qed

section \<open>Claims about the stage runner and the job queue\<close>

text \<open>
  Claim C1, as amended. When the vector stage raises (the upsert of the vector index, or
  anything before it), \<open>process_drawing_job\<close> catches the exception: the job is marked
  success, only its status and its finish time are written, so no error message, and
  the drawings are what the OCR and extract stages left, \<open>extracted_json\<close> included.
\<close>

theorem C1_vectorize_failure_is_swallowed:
  assumes "fetch_one_queued_job en w = Some job"
    and "rasterize_stage en (job_drawing_id job)
           (set_processing (job_drawing_id job)
              (update_job en (job_id job) Running (Some str_convert) None (Some (clock w)) None w)) =
         (Inr True, w2)"
    and "w3 = extract_stage en (job_drawing_id job) (ocr_stage en (job_drawing_id job) w2)"
    and "vectorize_drawing_for_search en (job_drawing_id job) (record_call (Run_stage Vectorize) w3) =
         (Inl e, w4)"
  shows "jobs (run_one_cycle en w) =
       map (\<lambda>j. if job_id j = job_id job
                 then j\<lparr>job_status := Success, finished_at := Some (clock w3)\<rparr> else j) (jobs w3) \<and>
     drawings (run_one_cycle en w) = drawings w3 \<and>
     calls (run_one_cycle en w) = calls w4"
proof -
  have c: "supabase_configured en" using assms(1) by (rule fetch_configured)
  have r: "run_one_cycle en w =
     update_job en (job_id job) Success None None None (Some (clock w3))
       (vectorize_stage en (job_drawing_id job) w3)"
    using cycle_later_stages [OF assms(1,2)] assms(3) by simp
  have v: "vectorize_stage en (job_drawing_id job) w3 = w4"
    using assms(4) by (simp add: vectorize_stage_def)
  have t: "jobs w4 = jobs w3" "drawings w4 = drawings w3"
    using vectorize_tables [OF assms(4)] by (simp_all add: record_call_def)
  show ?thesis
    by (simp add: r v update_job_success [OF c] update_job_other_tables t)
qed

theorem C1_vectorize_failure_is_swallowed_witness:
  "fetch_one_queued_job upsert_fails_env queued_world = Some queued_job \<and>
   vectorize_drawing_for_search upsert_fails_env [100]
       (record_call (Run_stage Vectorize) after_extract_world) =
     (Inl boom, after_extract_world\<lparr>calls := calls after_extract_world @
        [Run_stage Vectorize, Embed (page_one_text @ [10] @ str_2509_0017), Upsert [100] ]\<rparr>) \<and>
   jobs (run_one_cycle upsert_fails_env queued_world) =
     [queued_job\<lparr>job_status := Success, job_step := Some str_convert, started_at := Some 7,
        finished_at := Some 7\<rparr>] \<and>
   drawings (run_one_cycle upsert_fails_env queued_world) = drawings after_extract_world"
  using C1_vectorize_failure_is_swallowed [OF q_fetch q_rasterize_claimed q_stages q_vectorize_job]
    q_fetch q_vectorize
  by (simp add: q_after_extract q_job)

text \<open>
  The claim as stated has the job end in error with the message of the exception. In
  the scenario the upsert is called and raises "boom", and the job ends in success
  without a message.
\<close>

theorem C1_job_marked_success_counterexample:
  "upsert upsert_fails_env [100] [1] = Inl boom \<and>
   message boom = [98, 111, 111, 109] \<and>
   last (calls (run_one_cycle upsert_fails_env queued_world)) = Upsert [100] \<and>
   map job_status (jobs (run_one_cycle upsert_fails_env queued_world)) = [Success] \<and>
   map error_message (jobs (run_one_cycle upsert_fails_env queued_world)) = [None]"
  by (simp add: q_cycle update_job_def keep_def q_after_extract q_job)
     (simp add: upsert_fails_env_def boom_def queued_job_def)

text \<open>
  Claim C7. When the drawing of the claimed job has neither an original PDF nor a page
  image, \<open>process_drawing_job\<close> returns right after setting the drawing's status: no
  stage and no collaborator is called, and the cycle marks the job success.
\<close>

theorem C7_nothing_to_process:
  assumes "fetch_one_queued_job en w = Some job"
    and "filter (\<lambda>f. file_mime f = mime_pdf) (files_of w (job_drawing_id job) Original) = []"
    and "files_of w (job_drawing_id job) Page_image = []"
  shows "process_drawing_job en (job_drawing_id job)
        (update_job en (job_id job) Running (Some str_convert) None (Some (clock w)) None w) =
      (Inr (), set_processing (job_drawing_id job)
         (update_job en (job_id job) Running (Some str_convert) None (Some (clock w)) None w)) \<and>
    calls (run_one_cycle en w) = calls w \<and>
    job \<in> set (jobs w) \<and>
    jobs (run_one_cycle en w) =
      map (\<lambda>j. if job_id j = job_id job
                then j\<lparr>job_status := Success, job_step := Some str_convert,
                       started_at := Some (clock w), finished_at := Some (clock w)\<rparr>
                else j) (jobs w)"
proof -
  let ?w1 = "update_job en (job_id job) Running (Some str_convert) None (Some (clock w)) None w"
  have c: "supabase_configured en" using assms(1) by (rule fetch_configured)
  have f: "files (set_processing (job_drawing_id job) ?w1) = files w"
    by (simp add: set_processing_other_tables update_job_other_tables)
  have r: "rasterize_stage en (job_drawing_id job) (set_processing (job_drawing_id job) ?w1) =
      (Inr False, set_processing (job_drawing_id job) ?w1)"
    using no_files_rasterize [OF assms(2,3) f] .
  have p: "process_drawing_job en (job_drawing_id job) ?w1 =
      (Inr (), set_processing (job_drawing_id job) ?w1)"
    using c r by (simp add: process_drawing_job_def)
  have j: "jobs (run_one_cycle en w) =
      map (\<lambda>j. if job_id j = job_id job
                then j\<lparr>job_status := Success, job_step := Some str_convert,
                       started_at := Some (clock w), finished_at := Some (clock w)\<rparr>
                else j) (jobs w)"
    using c assms(1)
    by (simp add: run_one_cycle_def p set_processing_other_tables update_job_other_tables)
       (simp add: update_job_def keep_def set_processing_other_tables)
  have k: "calls (run_one_cycle en w) = calls w"
    using assms(1)
    by (simp add: run_one_cycle_def p set_processing_other_tables update_job_other_tables)
  show ?thesis
    using p j k fetch_member [OF assms(1)] by simp
qed

theorem C7_nothing_to_process_witness:
  "fetch_one_queued_job failing_env idle_world = Some queued_job \<and>
   files_of idle_world [100] Page_image = [] \<and>
   calls (run_one_cycle failing_env idle_world) = [] \<and>
   jobs (run_one_cycle failing_env idle_world) =
     [queued_job\<lparr>job_status := Success, job_step := Some str_convert, started_at := Some 0,
        finished_at := Some 0\<rparr>]"
proof -
  have f: "fetch_one_queued_job failing_env idle_world = Some queued_job"
    by (simp add: fetch_one_queued_job_def failing_env_def idle_world_def baseplate_world_def
          queued_job_def)
  have a: "filter (\<lambda>f. file_mime f = mime_pdf) (files_of idle_world (job_drawing_id queued_job) Original) = []"
    and b: "files_of idle_world (job_drawing_id queued_job) Page_image = []"
    by (simp_all add: files_of_def idle_world_def baseplate_world_def)
  show ?thesis
    using C7_nothing_to_process [OF f a b] f b
    by (simp add: q_job idle_world_def baseplate_world_def)
qed

end
